theory Spec2Isabelle
  imports Complex_Main "HOL-Library.AList" "HOL-Library.Char_ord" "HOL-Library.List_Lexorder"
begin

section \<open>Data model of the photo360 client\<close>

text \<open>
  Go strings are byte sequences; they are modelled as \<open>string\<close> (a list of 8-bit
  characters). A nil slice and an empty slice are both the empty list.
\<close>

text \<open>
  Error values. \<open>ErrorsNew m\<close> is \<open>errors.New(m)\<close>; \<open>External m\<close> is an error
  handed back by a library call (transport, reader, parser, entropy source);
  \<open>Errorf m e\<close> is \<open>fmt.Errorf(m + ": %w", e)\<close>; \<open>Panic m\<close> is a run-time panic.
\<close>

datatype error =
    ErrorsNew string
  | External string
  | Errorf string error
  | Panic string

text \<open>The dynamic values stored in \<open>FormData map[string]interface{}\<close>.\<close>

datatype formval = FString string | FInt int

record Photo360 =
  EffectPageURL :: string
  InputText :: "string list"
  FormData :: "(string \<times> formval) list"

record Photo360Result =
  Status :: bool
  ImageURL :: string
  SessionID :: string

section \<open>Construction and the text setters\<close>

text \<open>\<open>strings.HasPrefix\<close> and \<open>strings.Contains\<close>.\<close>

definition hasPrefix :: "string \<Rightarrow> string \<Rightarrow> bool" where
  "hasPrefix s p = (take (length p) s = p)"

fun stringsContains :: "string \<Rightarrow> string \<Rightarrow> bool" where
  "stringsContains [] sub = (sub = [])"
| "stringsContains (c # cs) sub = (hasPrefix (c # cs) sub \<or> stringsContains cs sub)"

definition defaultEffectURL :: string where
  "defaultEffectURL =
     ''https://en.ephoto360.com/handwritten-text-on-foggy-glass-online-680.html''"

definition domainMarker :: string where
  "domainMarker = ''photo360.com''"

definition invalidURL :: error where
  "invalidURL = ErrorsNew ''invalid URL: Must be a photo360.com URL''"

definition NewPhoto360 :: "string \<Rightarrow> error + Photo360" where
  "NewPhoto360 effectPageURL =
     (let url = (if effectPageURL = [] then defaultEffectURL else effectPageURL)
      in if \<not> stringsContains url domainMarker then Inl invalidURL
         else Inr \<lparr>EffectPageURL = url, InputText = [''Faris''], FormData = []\<rparr>)"

definition SetName :: "Photo360 \<Rightarrow> string \<Rightarrow> Photo360" where
  "SetName p name = p\<lparr>InputText := [name]\<rparr>"

definition SetNames :: "Photo360 \<Rightarrow> string list \<Rightarrow> Photo360" where
  "SetNames p names = p\<lparr>InputText := names\<rparr>"

text \<open>The client that \<open>NewPhoto360 ""\<close> returns.\<close>

definition defaultClient :: Photo360 where
  "defaultClient =
     \<lparr>EffectPageURL = defaultEffectURL, InputText = [''Faris''], FormData = []\<rparr>"

section \<open>Library functions the client calls\<close>

subsection \<open>\<open>strings.TrimSpace\<close> and \<open>strings.Join\<close>\<close>

text \<open>
  \<open>strings.TrimSpace\<close> removes leading and trailing white space as Unicode defines it.
  On a byte string that is: the six ASCII white-space bytes and the UTF-8 encodings of
  U+0085, U+00A0, U+1680, U+2000 to U+200A, U+2028, U+2029, U+202F, U+205F and U+3000.
  A byte that does not start or end one of these encodings stops the trimming.
\<close>

definition spaceRunes :: "string list" where
  "spaceRunes =
     [[CHR 0x09], [CHR 0x0A], [CHR 0x0B], [CHR 0x0C], [CHR 0x0D], [CHR 0x20],
      [CHR 0xC2, CHR 0x85], [CHR 0xC2, CHR 0xA0],
      [CHR 0xE1, CHR 0x9A, CHR 0x80],
      [CHR 0xE2, CHR 0x80, CHR 0x80], [CHR 0xE2, CHR 0x80, CHR 0x81],
      [CHR 0xE2, CHR 0x80, CHR 0x82], [CHR 0xE2, CHR 0x80, CHR 0x83],
      [CHR 0xE2, CHR 0x80, CHR 0x84], [CHR 0xE2, CHR 0x80, CHR 0x85],
      [CHR 0xE2, CHR 0x80, CHR 0x86], [CHR 0xE2, CHR 0x80, CHR 0x87],
      [CHR 0xE2, CHR 0x80, CHR 0x88], [CHR 0xE2, CHR 0x80, CHR 0x89],
      [CHR 0xE2, CHR 0x80, CHR 0x8A],
      [CHR 0xE2, CHR 0x80, CHR 0xA8], [CHR 0xE2, CHR 0x80, CHR 0xA9],
      [CHR 0xE2, CHR 0x80, CHR 0xAF], [CHR 0xE2, CHR 0x81, CHR 0x9F],
      [CHR 0xE3, CHR 0x80, CHR 0x80]]"

fun matchLen :: "string list \<Rightarrow> string \<Rightarrow> nat" where
  "matchLen [] s = 0"
| "matchLen (r # rs) s = (if hasPrefix s r then length r else matchLen rs s)"

fun trimLeftWith :: "string list \<Rightarrow> string \<Rightarrow> string" where
  "trimLeftWith rs [] = []"
| "trimLeftWith rs (c # cs) =
     (case matchLen rs (c # cs) of 0 \<Rightarrow> c # cs | Suc k \<Rightarrow> trimLeftWith rs (drop k cs))"

definition TrimSpace :: "string \<Rightarrow> string" where
  "TrimSpace s = rev (trimLeftWith (map rev spaceRunes) (rev (trimLeftWith spaceRunes s)))"

fun stringsJoin :: "string list \<Rightarrow> string \<Rightarrow> string" where
  "stringsJoin [] sep = []"
| "stringsJoin [x] sep = x"
| "stringsJoin (x # y # ys) sep = x @ sep @ stringsJoin (y # ys) sep"

subsection \<open>\<open>strconv.Atoi\<close>\<close>

text \<open>
  \<open>strconv.Atoi\<close> accepts an optional sign followed by one or more decimal digits, and
  rejects a value outside the range of \<open>int\<close> (64 bits here).
\<close>

definition isDigit :: "char \<Rightarrow> bool" where
  "isDigit c = (48 \<le> (of_char c :: nat) \<and> (of_char c :: nat) \<le> 57)"

definition digitsValue :: "string \<Rightarrow> nat" where
  "digitsValue ds = foldl (\<lambda>n c. 10 * n + ((of_char c :: nat) - 48)) 0 ds"

definition Atoi :: "string \<Rightarrow> int option" where
  "Atoi s =
     (case s of
        [] \<Rightarrow> None
      | c # cs \<Rightarrow>
          let neg = (c = CHR ''-'');
              ds = (if c = CHR ''-'' \<or> c = CHR ''+'' then cs else s)
          in if ds = [] \<or> \<not> list_all isDigit ds then None
             else let v = (if neg then - int (digitsValue ds) else int (digitsValue ds))
                  in if - (2 ^ 63) \<le> v \<and> v < 2 ^ 63 then Some v else None)"

subsection \<open>Formatting with \<open>fmt\<close>\<close>

definition digitChar :: "nat \<Rightarrow> char" where
  "digitChar d = char_of (48 + d)"

fun showNat :: "nat \<Rightarrow> string" where
  "showNat n = (if n < 10 then [digitChar n] else showNat (n div 10) @ [digitChar (n mod 10)])"

declare showNat.simps [simp del]

text \<open>\<open>%d\<close> of an \<open>int\<close>.\<close>

definition showInt :: "int \<Rightarrow> string" where
  "showInt i = (if i < 0 then ''-'' @ showNat (nat (- i)) else showNat (nat i))"

text \<open>
  A \<open>float64\<close>: \<open>F64 neg m e\<close> is the finite value \<open>(-1)^neg * m * 2^e\<close>, with the sign
  kept apart so that negative zero is a value; the other two are the infinities and NaN.
\<close>

datatype float64 = F64 bool nat int | F64Inf bool | F64NaN

definition f64value :: "bool \<Rightarrow> nat \<Rightarrow> int \<Rightarrow> real" where
  "f64value neg m e = (if neg then - 1 else 1) * real m * 2 powi e"

text \<open>
  \<open>%.0f\<close>: the exact value rounded to an integer, a tie going to the even neighbour
  (\<open>strconv.FormatFloat(v, 'f', 0, 64)\<close>), printed in decimal with the sign of the input.
\<close>

definition roundHalfEven :: "nat \<Rightarrow> int \<Rightarrow> nat" where
  "roundHalfEven m e =
     (if 0 \<le> e then m * 2 ^ nat e
      else let d = 2 ^ nat (- e); q = m div d; r = m mod d
           in if 2 * r < d then q
              else if d < 2 * r then q + 1
              else if even q then q else q + 1)"

fun fmtFloat0 :: "float64 \<Rightarrow> string" where
  "fmtFloat0 (F64 neg m e) = (if neg then ''-'' else []) @ showNat (roundHalfEven m e)"
| "fmtFloat0 (F64Inf neg) = (if neg then ''-Inf'' else ''+Inf'')"
| "fmtFloat0 F64NaN = ''NaN''"

text \<open>
  The dynamic values an \<open>interface{}\<close> holds after \<open>json.Unmarshal\<close> (nil, bool,
  float64, string, slice, map), and \<open>int\<close>, which the type switch of \<open>createImage\<close>
  also names. A map is kept as an association list.
\<close>

datatype goval =
    GNil
  | GBool bool
  | GFloat64 float64
  | GInt int
  | GString string
  | GSlice "goval list"
  | GMap "(string \<times> goval) list"

text \<open>
  \<open>%v\<close>: the default format of a value. A \<open>float64\<close> inside a slice or map prints in
  its shortest form (\<open>%g\<close>), which is \<open>fmt\<close>'s own and is taken as the parameter \<open>g\<close>;
  a map prints with its keys sorted.
\<close>

fun sprintV :: "(float64 \<Rightarrow> string) \<Rightarrow> goval \<Rightarrow> string" where
  "sprintV g GNil = ''<nil>''"
| "sprintV g (GBool b) = (if b then ''true'' else ''false'')"
| "sprintV g (GFloat64 f) = g f"
| "sprintV g (GInt i) = showInt i"
| "sprintV g (GString s) = s"
| "sprintV g (GSlice xs) = ''['' @ stringsJoin (map (sprintV g) xs) '' '' @ '']''"
| "sprintV g (GMap kvs) =
     ''map['' @ stringsJoin (map (\<lambda>kv. fst kv @ '':'' @ sprintV g (snd kv)) (sort_key fst kvs)) '' ''
       @ '']''"

text \<open>\<open>fmt.Sprintf("%v", value)\<close> for a value of the form data.\<close>

fun sprintFormval :: "formval \<Rightarrow> string" where
  "sprintFormval (FString s) = s"
| "sprintFormval (FInt i) = showInt i"

subsection \<open>goquery selections\<close>

text \<open>
  A matched node carries the combined text of itself and its descendants, and its
  attributes. A parsed document answers a selector with the nodes it matches, in
  document order; the HTML parser and the selector engine are goquery's.
\<close>

record node =
  nodeText :: string
  nodeAttrs :: "(string \<times> string) list"

type_synonym selection = "node list"

type_synonym document = "(string \<times> node list) list"

definition goquery_Find :: "document \<Rightarrow> string \<Rightarrow> selection" where
  "goquery_Find doc selector = (case map_of doc selector of None \<Rightarrow> [] | Some ns \<Rightarrow> ns)"

text \<open>\<open>Selection.Text\<close>: the combined text of every matched node.\<close>

definition goquery_Text :: "selection \<Rightarrow> string" where
  "goquery_Text sel = concat (map nodeText sel)"

text \<open>
  \<open>Selection.Attr\<close>: the attribute of the first matched node; \<open>None\<close> is
  \<open>exists = false\<close> (no node matched, or the first one lacks the attribute).
\<close>

definition goquery_Attr :: "selection \<Rightarrow> string \<Rightarrow> string option" where
  "goquery_Attr sel name = (case sel of [] \<Rightarrow> None | n # _ \<Rightarrow> map_of (nodeAttrs n) name)"

text \<open>\<open>val, _ := sel.Attr(name)\<close>: the value, or the empty string.\<close>

definition attrOrEmpty :: "string option \<Rightarrow> string" where
  "attrOrEmpty a = (case a of None \<Rightarrow> [] | Some v \<Rightarrow> v)"

subsection \<open>HTTP, URLs and JSON\<close>

datatype body =
    NoBody
  | Multipart "(string \<times> string) list"
  | UrlEncoded "(string \<times> string list) list"

record request =
  Method :: string
  URL :: string
  Header :: "(string \<times> string) list"
  Body :: body

text \<open>
  A response: its cookies, each already rendered by \<open>cookie.String()\<close>, and what
  reading its body to the end gives (\<open>Inl\<close> a read error).
\<close>

record response =
  Cookies :: "string list"
  RespBody :: "string + string"

record Radio0T =
  Radio :: string

record FormDataValues =
  ID :: string
  Token :: string
  BuildServer :: string
  BuildServerID :: string
  Radio0 :: Radio0T
  Text :: "string list"

text \<open>
  \<open>ImageCreationResponse\<close>; its \<open>SessionID interface{}\<close> field is \<open>RawSessionID\<close>
  here, \<open>SessionID\<close> being the string field of the result.
\<close>

record ImageCreationResponse =
  Success :: bool
  Image :: string
  FullsizeImage :: string
  RawSessionID :: goval

text \<open>
  What the client takes from outside: URL parsing (scheme and host), the HTTP transport
  (which may answer by the requests made so far), the HTML parser, JSON decoding into the
  two structs, the system's random source \<open>rand.Int(rand.Reader, max)\<close>, the multipart
  writer's \<open>FormDataContentType()\<close> (it names a random boundary) and \<open>fmt\<close>'s shortest float format. A failure carries the library's message.
\<close>

record env =
  urlParse :: "string \<Rightarrow> string + (string \<times> string)"
  httpDo :: "request list \<Rightarrow> request \<Rightarrow> string + response"
  parseHTML :: "string \<Rightarrow> string + document"
  unmarshalForm :: "string \<Rightarrow> string + FormDataValues"
  unmarshalResponse :: "string \<Rightarrow> string + ImageCreationResponse"
  randInt :: "nat \<Rightarrow> string + nat"
  formDataContentType :: string
  formatG :: "float64 \<Rightarrow> string"

text \<open>The client together with the log of the requests handed to the transport.\<close>

record state =
  client :: Photo360
  sent :: "request list"

text \<open>\<open>http.NewRequest\<close> fails exactly when the URL does not parse.\<close>

definition newRequest :: "env \<Rightarrow> string \<Rightarrow> string \<Rightarrow> body \<Rightarrow> error + request" where
  "newRequest E method url b =
     (case urlParse E url of
        Inl m \<Rightarrow> Inl (External m)
      | Inr _ \<Rightarrow> Inr \<lparr>Method = method, URL = url, Header = [], Body = b\<rparr>)"

definition setHeader :: "string \<Rightarrow> string \<Rightarrow> request \<Rightarrow> request" where
  "setHeader k v req = req\<lparr>Header := AList.update k v (Header req)\<rparr>"

text \<open>
  \<open>parsedURL, _ := url.Parse(u)\<close> followed by
  \<open>fmt.Sprintf("%s://%s", parsedURL.Scheme, parsedURL.Host)\<close>: when the URL does not
  parse, \<open>parsedURL\<close> is nil and reading its field panics.
\<close>

definition originOf :: "env \<Rightarrow> string \<Rightarrow> error + string" where
  "originOf E u =
     (case urlParse E u of
        Inl _ \<Rightarrow> Inl (Panic ''invalid memory address or nil pointer dereference'')
      | Inr (scheme, host) \<Rightarrow> Inr (scheme @ ''://'' @ host))"

text \<open>\<open>client.Do(req)\<close>: the request is logged, the transport answers.\<close>

definition clientDo :: "env \<Rightarrow> request \<Rightarrow> state \<Rightarrow> (error + response) \<times> state" where
  "clientDo E req s =
     ((case httpDo E (sent s) req of Inl m \<Rightarrow> Inl (External m) | Inr resp \<Rightarrow> Inr resp),
      s\<lparr>sent := sent s @ [req]\<rparr>)"

definition readAll :: "response \<Rightarrow> error + string" where
  "readAll resp = (case RespBody resp of Inl m \<Rightarrow> Inl (External m) | Inr b \<Rightarrow> Inr b)"

text \<open>\<open>goquery.NewDocumentFromReader\<close> on a string or on a response body.\<close>

definition newDocument :: "env \<Rightarrow> string \<Rightarrow> error + document" where
  "newDocument E content =
     (case parseHTML E content of Inl m \<Rightarrow> Inl (External m) | Inr doc \<Rightarrow> Inr doc)"

definition newDocumentFromBody :: "env \<Rightarrow> response \<Rightarrow> error + document" where
  "newDocumentFromBody E resp =
     (case readAll resp of Inl err \<Rightarrow> Inl err | Inr content \<Rightarrow> newDocument E content)"

text \<open>\<open>url.Values\<close>: \<open>Set\<close> replaces the values of a key, \<open>Add\<close> appends one.\<close>

definition valuesSet :: "string \<Rightarrow> string \<Rightarrow> (string \<times> string list) list \<Rightarrow> (string \<times> string list) list" where
  "valuesSet k v vs = AList.update k [v] vs"

definition valuesAdd :: "string \<Rightarrow> string \<Rightarrow> (string \<times> string list) list \<Rightarrow> (string \<times> string list) list" where
  "valuesAdd k v vs =
     AList.update k ((case map_of vs k of None \<Rightarrow> [] | Some xs \<Rightarrow> xs) @ [v]) vs"

text \<open>\<open>fmt.Errorf(m + ": %w", err)\<close> on an error value; a panic is not an error value.\<close>

definition wrapError :: "string \<Rightarrow> error \<Rightarrow> error" where
  "wrapError m err = (case err of Panic x \<Rightarrow> Panic x | _ \<Rightarrow> Errorf m err)"

section \<open>The pipeline\<close>

subsection \<open>Form data assembly\<close>

text \<open>
  \<open>secureRandomInt\<close>: \<open>rand.Int\<close> panics on a bound that is not positive, and
  otherwise hands back a number or the entropy source's error.
\<close>

definition secureRandomInt :: "env \<Rightarrow> nat \<Rightarrow> error + nat" where
  "secureRandomInt E max' =
     (if max' = 0 then Inl (Panic ''crypto/rand: argument to Int is <= 0'')
      else case randInt E max' of Inl m \<Rightarrow> Inl (External m) | Inr n \<Rightarrow> Inr n)"

text \<open>
  \<open>prepareFormData\<close>. The Go map is an association list with distinct keys;
  \<open>radioOptions[randomIndex]\<close> panics when the index is out of range.
\<close>

definition prepareFormData ::
  "env \<Rightarrow> string \<Rightarrow> string \<Rightarrow> string \<Rightarrow> string \<Rightarrow> string list \<Rightarrow> error + (string \<times> formval) list" where
  "prepareFormData E buildServer buildServerId token submitValue radioOptions =
     (let formData0 = [(''submit'', FString submitValue),
                       (''token'', FString token),
                       (''build_server'', FString buildServer)];
          formData = (if buildServerId \<noteq> []
                      then (case Atoi buildServerId of
                              Some id' \<Rightarrow> AList.update ''build_server_id'' (FInt id') formData0
                            | None \<Rightarrow> formData0)
                      else formData0)
      in if length radioOptions > 0
         then (case secureRandomInt E (length radioOptions) of
                 Inl err \<Rightarrow> Inl (wrapError ''failed to generate secure random number'' err)
               | Inr randomIndex \<Rightarrow>
                   if randomIndex < length radioOptions
                   then Inr (AList.update ''radio0[radio]''
                               (FString (radioOptions ! randomIndex)) formData)
                   else Inl (Panic ''index out of range''))
         else Inr formData)"

text \<open>
  Lines 302 to 311 of \<open>prepareFormData\<close> on their own: the form data before an option
  is chosen. \<open>Atoi\<close> rejects the empty string, so the test for it changes nothing.
\<close>

definition baseFormData :: "string \<Rightarrow> string \<Rightarrow> string \<Rightarrow> string \<Rightarrow> (string \<times> formval) list" where
  "baseFormData bs bsid tok sub =
     (case Atoi bsid of
        Some n \<Rightarrow> AList.update ''build_server_id'' (FInt n)
                    [(''submit'', FString sub), (''token'', FString tok), (''build_server'', FString bs)]
      | None \<Rightarrow> [(''submit'', FString sub), (''token'', FString tok), (''build_server'', FString bs)])"

subsection \<open>Fetching the effect page\<close>

definition userAgent :: string where
  "userAgent = ''Mozilla/5.0 (Windows NT 10.0; Win64; x64) AppleWebKit/537.36 (KHTML, like Gecko) Chrome/115.0.0.0 Safari/537.36 Edg/115.0.1901.188''"

definition acceptHTML :: string where
  "acceptHTML = ''text/html,application/xhtml+xml,application/xml;q=0.9,image/webp,image/apng,*/*;q=0.8,application/signed-exchange;v=b3;q=0.7''"

text \<open>The selector \<open>input[name="radio0[radio]"]\<close>.\<close>

definition radioSelector :: string where
  "radioSelector = ''input[name='' @ [CHR 0x22] @ ''radio0[radio]'' @ [CHR 0x22] @ '']''"

text \<open>The GET request of \<open>fetchInitialPage\<close>, headers set in the source's order.\<close>

definition pageRequest :: "env \<Rightarrow> Photo360 \<Rightarrow> error + request" where
  "pageRequest E p =
     (case newRequest E ''GET'' (EffectPageURL p) NoBody of
        Inl err \<Rightarrow> Inl err
      | Inr req \<Rightarrow>
          (case originOf E (EffectPageURL p) of
             Inl pn \<Rightarrow> Inl pn
           | Inr origin \<Rightarrow>
               Inr (setHeader ''Referer'' (EffectPageURL p)
                     (setHeader ''Origin'' origin
                       (setHeader ''User-Agent'' userAgent
                         (setHeader ''Accept'' acceptHTML req))))))"

definition fetchInitialPage :: "env \<Rightarrow> state \<Rightarrow> (error + string) \<times> state" where
  "fetchInitialPage E s =
     (let p = client s
      in case pageRequest E p of
           Inl err \<Rightarrow> (Inl err, s)
         | Inr req \<Rightarrow>
             (case clientDo E req s of
                (Inl err, s1) \<Rightarrow> (Inl err, s1)
              | (Inr resp, s1) \<Rightarrow>
                  let cookieString = stringsJoin (Cookies resp) ''; ''
                  in (case newDocumentFromBody E resp of
                        Inl err \<Rightarrow> (Inl err, s1)
                      | Inr doc \<Rightarrow>
                          let buildServer = attrOrEmpty (goquery_Attr (goquery_Find doc ''#build_server'') ''value'');
                              buildServerId = attrOrEmpty (goquery_Attr (goquery_Find doc ''#build_server_id'') ''value'');
                              token = attrOrEmpty (goquery_Attr (goquery_Find doc ''#token'') ''value'');
                              submitValue = attrOrEmpty (goquery_Attr (goquery_Find doc ''#submit'') ''value'');
                              radioOptions = List.map_filter (\<lambda>n. map_of (nodeAttrs n) ''value'')
                                               (goquery_Find doc radioSelector)
                          in (case prepareFormData E buildServer buildServerId token submitValue radioOptions of
                                Inl err \<Rightarrow> (Inl (wrapError ''failed to prepare form data'' err), s1)
                              | Inr formData \<Rightarrow>
                                  (Inr cookieString, s1\<lparr>client := p\<lparr>FormData := formData\<rparr>\<rparr>)))))"

subsection \<open>Submitting the form\<close>

text \<open>
  \<open>extractGeneratedFormValue\<close>: the trimmed text of \<open>#form_value\<close>, else the trimmed
  text of \<open>#form_value_input\<close>, else the \<open>value\<close> attribute of \<open>#form_value\<close> when it
  exists, else that of \<open>#form_value_input\<close> when it exists.
\<close>

definition extractGeneratedFormValue :: "env \<Rightarrow> string \<Rightarrow> string" where
  "extractGeneratedFormValue E responseData =
     (case newDocument E responseData of
        Inl err \<Rightarrow> []
      | Inr doc \<Rightarrow>
          let formValue0 = TrimSpace (goquery_Text (goquery_Find doc ''#form_value''));
              formValue = (if formValue0 = []
                           then TrimSpace (goquery_Text (goquery_Find doc ''#form_value_input''))
                           else formValue0)
          in if formValue = []
             then (case goquery_Attr (goquery_Find doc ''#form_value'') ''value'' of
                     Some val \<Rightarrow> val
                   | None \<Rightarrow>
                       (case goquery_Attr (goquery_Find doc ''#form_value_input'') ''value'' of
                          Some val \<Rightarrow> val
                        | None \<Rightarrow> formValue))
             else formValue)"

definition noGeneratedFormValue :: error where
  "noGeneratedFormValue = ErrorsNew ''no generated form value found''"

text \<open>
  The multipart fields of \<open>submitFormData\<close>: every entry of the form data (Go ranges
  over the map in no fixed order; the list's order stands for it), then one \<open>text[]\<close>
  field for each input text, in order. Writing them to a memory buffer does not fail.
\<close>

definition submitFields :: "Photo360 \<Rightarrow> (string \<times> string) list" where
  "submitFields p =
     map (\<lambda>kv. (fst kv, sprintFormval (snd kv))) (FormData p)
       @ map (\<lambda>text. (''text[]'', text)) (InputText p)"

text \<open>The POST request of \<open>submitFormData\<close>.\<close>

definition submitRequest :: "env \<Rightarrow> Photo360 \<Rightarrow> string \<Rightarrow> error + request" where
  "submitRequest E p cookies =
     (case newRequest E ''POST'' (EffectPageURL p) (Multipart (submitFields p)) of
        Inl err \<Rightarrow> Inl err
      | Inr req \<Rightarrow>
          (case originOf E (EffectPageURL p) of
             Inl pn \<Rightarrow> Inl pn
           | Inr origin \<Rightarrow>
               Inr (setHeader ''Referer'' (EffectPageURL p)
                     (setHeader ''Origin'' origin
                       (setHeader ''Cookie'' cookies
                         (setHeader ''User-Agent'' userAgent
                           (setHeader ''Content-Type'' (formDataContentType E)
                             (setHeader ''Accept'' ''*/*'' req))))))))"

definition submitFormData :: "env \<Rightarrow> string \<Rightarrow> state \<Rightarrow> (error + string) \<times> state" where
  "submitFormData E cookies s =
     (case submitRequest E (client s) cookies of
        Inl err \<Rightarrow> (Inl err, s)
      | Inr req \<Rightarrow>
          (case clientDo E req s of
             (Inl err, s1) \<Rightarrow> (Inl err, s1)
           | (Inr resp, s1) \<Rightarrow>
               (case readAll resp of
                  Inl err \<Rightarrow> (Inl err, s1)
                | Inr body \<Rightarrow>
                    let generatedFormValue = extractGeneratedFormValue E body
                    in if generatedFormValue = [] then (Inl noGeneratedFormValue, s1)
                       else (Inr generatedFormValue, s1))))"

subsection \<open>Creating the image\<close>

definition singleInputRequired :: error where
  "singleInputRequired = ErrorsNew ''please try using a URL that requires 1 input field''"

text \<open>The URL-encoded form of \<open>createImage\<close>.\<close>

definition createImageForm :: "FormDataValues \<Rightarrow> (string \<times> string list) list" where
  "createImageForm imageCreationData =
     (let formData0 = valuesSet ''build_server_id'' (BuildServerID imageCreationData)
                        (valuesSet ''build_server'' (BuildServer imageCreationData)
                          (valuesSet ''token'' (Token imageCreationData)
                            (valuesSet ''id'' (ID imageCreationData) [])));
          formData = (if Radio (Radio0 imageCreationData) \<noteq> []
                      then valuesSet ''radio0[radio]'' (Radio (Radio0 imageCreationData)) formData0
                      else formData0)
      in foldl (\<lambda>fd text. valuesAdd ''text[]'' text fd) formData (Text imageCreationData))"

definition createImageRequest ::
  "env \<Rightarrow> Photo360 \<Rightarrow> string \<Rightarrow> FormDataValues \<Rightarrow> string \<Rightarrow> error + request" where
  "createImageRequest E p origin imageCreationData cookies =
     (case newRequest E ''POST'' (origin @ ''/effect/create-image'')
             (UrlEncoded (createImageForm imageCreationData)) of
        Inl err \<Rightarrow> Inl err
      | Inr req \<Rightarrow>
          Inr (setHeader ''Referer'' (EffectPageURL p)
                (setHeader ''Origin'' origin
                  (setHeader ''Cookie'' cookies
                    (setHeader ''User-Agent'' userAgent
                      (setHeader ''Content-Type'' ''application/x-www-form-urlencoded; charset=UTF-8''
                        (setHeader ''Accept'' ''application/json, text/javascript, */*; q=0.01'' req)))))))"

text \<open>Lines 275 to 280 of \<open>createImage\<close>: the image URL.\<close>

definition imageURLOf :: "FormDataValues \<Rightarrow> ImageCreationResponse \<Rightarrow> string" where
  "imageURLOf imageCreationData imageResponse =
     (let imageURL = BuildServer imageCreationData
      in if Image imageResponse \<noteq> [] then imageURL @ Image imageResponse
         else if FullsizeImage imageResponse \<noteq> [] then imageURL @ FullsizeImage imageResponse
         else imageURL)"

text \<open>Lines 282 to 292 of \<open>createImage\<close>: the type switch on the session identifier.\<close>

fun sessionIDString :: "(float64 \<Rightarrow> string) \<Rightarrow> goval \<Rightarrow> string" where
  "sessionIDString g (GString v) = v"
| "sessionIDString g (GFloat64 v) = fmtFloat0 v"
| "sessionIDString g (GInt v) = showInt v"
| "sessionIDString g v = sprintV g v"

definition createImage :: "env \<Rightarrow> string \<Rightarrow> string \<Rightarrow> state \<Rightarrow> (error + Photo360Result) \<times> state" where
  "createImage E generatedFormValue cookies s =
     (case originOf E (EffectPageURL (client s)) of
        Inl pn \<Rightarrow> (Inl pn, s)
      | Inr origin \<Rightarrow>
          (case unmarshalForm E generatedFormValue of
             Inl m \<Rightarrow> (Inl singleInputRequired, s)
           | Inr imageCreationData \<Rightarrow>
               (case createImageRequest E (client s) origin imageCreationData cookies of
                  Inl err \<Rightarrow> (Inl err, s)
                | Inr req \<Rightarrow>
                    (case clientDo E req s of
                       (Inl err, s1) \<Rightarrow> (Inl err, s1)
                     | (Inr resp, s1) \<Rightarrow>
                         (case readAll resp of
                            Inl err \<Rightarrow> (Inl err, s1)
                          | Inr body \<Rightarrow>
                              (case unmarshalResponse E body of
                                 Inl m \<Rightarrow> (Inl (External m), s1)
                               | Inr imageResponse \<Rightarrow>
                                   (Inr \<lparr>Status = Success imageResponse,
                                         ImageURL = imageURLOf imageCreationData imageResponse,
                                         SessionID = sessionIDString (formatG E)
                                                       (RawSessionID imageResponse)\<rparr>,
                                    s1)))))))"

subsection \<open>The whole run\<close>

definition Execute :: "env \<Rightarrow> state \<Rightarrow> (error + Photo360Result) \<times> state" where
  "Execute E s =
     (case fetchInitialPage E s of
        (Inl err, s1) \<Rightarrow> (Inl err, s1)
      | (Inr cookies, s1) \<Rightarrow>
          (case submitFormData E cookies s1 of
             (Inl err, s2) \<Rightarrow> (Inl err, s2)
           | (Inr generatedFormValue, s2) \<Rightarrow> createImage E generatedFormValue cookies s2))"

section \<open>The specification's wording of the extraction\<close>

text \<open>
  The four locations as the specification lists them, an absent one counting as empty,
  and "the first non-empty result".
\<close>

definition extractionLocations :: "document \<Rightarrow> string list" where
  "extractionLocations doc =
     [goquery_Text (goquery_Find doc ''#form_value''),
      goquery_Text (goquery_Find doc ''#form_value_input''),
      attrOrEmpty (goquery_Attr (goquery_Find doc ''#form_value'') ''value''),
      attrOrEmpty (goquery_Attr (goquery_Find doc ''#form_value_input'') ''value'')]"

fun firstNonEmpty :: "string list \<Rightarrow> string" where
  "firstNonEmpty [] = []"
| "firstNonEmpty (x # xs) = (if x \<noteq> [] then x else firstNonEmpty xs)"

definition specExtract :: "document \<Rightarrow> string" where
  "specExtract doc = firstNonEmpty (extractionLocations doc)"

section \<open>A stub site\<close>

text \<open>
  A stand-in for the outside world, for running the pipeline on concrete inputs: every
  URL parses to the same scheme and host, the transport answers a request by the kind of
  its body, and the HTML parser maps the page body and the submission body to two given
  documents.
\<close>

definition always :: "'a \<Rightarrow> 'b \<Rightarrow> 'a" where
  "always r x = r"

definition stubUrlParse :: "string \<Rightarrow> string + (string \<times> string)" where
  "stubUrlParse u = Inr (''https'', ''en.ephoto360.com'')"

definition stubHttpDo :: "request list \<Rightarrow> request \<Rightarrow> string + response" where
  "stubHttpDo history req =
     Inr \<lparr>Cookies = [''PHPSESSID=abc; Path=/''],
          RespBody = Inr (case Body req of
                            NoBody \<Rightarrow> ''page''
                          | Multipart fs \<Rightarrow> ''submitted''
                          | UrlEncoded vs \<Rightarrow> ''created'')\<rparr>"

definition stubParseHTML :: "document \<Rightarrow> document \<Rightarrow> string \<Rightarrow> string + document" where
  "stubParseHTML page submitted content =
     Inr (if content = ''page'' then page else submitted)"

definition stubRandInt :: "nat \<Rightarrow> string + nat" where
  "stubRandInt m = Inr (m - 1)"

definition valueNode :: "string \<Rightarrow> node" where
  "valueNode v = \<lparr>nodeText = [], nodeAttrs = [(''value'', v)]\<rparr>"

definition textNode :: "string \<Rightarrow> node" where
  "textNode t = \<lparr>nodeText = t, nodeAttrs = []\<rparr>"

definition stubPage :: document where
  "stubPage =
     [(''#build_server'', [valueNode ''https://e2.yotools.net'']),
      (''#build_server_id'', [valueNode ''2'']),
      (''#token'', [valueNode ''tok'']),
      (''#submit'', [valueNode ''GO'']),
      (radioSelector, [valueNode ''r1'', valueNode ''r2''])]"

definition stubEnv ::
  "document \<Rightarrow> string + FormDataValues \<Rightarrow> string + ImageCreationResponse \<Rightarrow> env" where
  "stubEnv submitted formResult imageResult =
     \<lparr>urlParse = stubUrlParse,
      httpDo = stubHttpDo,
      parseHTML = stubParseHTML stubPage submitted,
      unmarshalForm = always formResult,
      unmarshalResponse = always imageResult,
      randInt = stubRandInt,
      formDataContentType = ''multipart/form-data; boundary=b'',
      formatG = always ''?''\<rparr>"

text \<open>A submission response whose generated form value is the text of \<open>#form_value\<close>.\<close>

definition stubSubmitted :: document where
  "stubSubmitted = [(''#form_value'', [textNode ''generated''])]"

definition stubForm :: FormDataValues where
  "stubForm =
     \<lparr>ID = ''680'', Token = ''tok'', BuildServer = ''https://e2.yotools.net'',
      BuildServerID = ''2'', Radio0 = \<lparr>Radio = ''r2''\<rparr>, Text = [''Hello World'']\<rparr>"

text \<open>An image response that carries both a default and a full-size path.\<close>

definition stubImage :: ImageCreationResponse where
  "stubImage =
     \<lparr>Success = True, Image = ''/x.jpg'', FullsizeImage = ''/full.jpg'',
      RawSessionID = GFloat64 (F64 False 7 0)\<rparr>"

definition startState :: state where
  "startState = \<lparr>client = defaultClient, sent = []\<rparr>"

text \<open>What the stub run leaves behind, stage by stage.\<close>

definition stubCookies :: string where
  "stubCookies = ''PHPSESSID=abc; Path=/''"

definition stubPageRequest :: request where
  "stubPageRequest =
     \<lparr>Method = ''GET'', URL = defaultEffectURL,
      Header = [(''Accept'', acceptHTML), (''User-Agent'', userAgent),
                (''Origin'', ''https://en.ephoto360.com''), (''Referer'', defaultEffectURL)],
      Body = NoBody\<rparr>"

definition stubFormData :: "(string \<times> formval) list" where
  "stubFormData =
     [(''submit'', FString ''GO''), (''token'', FString ''tok''),
      (''build_server'', FString ''https://e2.yotools.net''),
      (''build_server_id'', FInt 2), (''radio0[radio]'', FString ''r2'')]"

definition stubFetched :: state where
  "stubFetched = \<lparr>client = defaultClient\<lparr>FormData := stubFormData\<rparr>, sent = [stubPageRequest]\<rparr>"

definition stubSubmitRequest :: request where
  "stubSubmitRequest =
     \<lparr>Method = ''POST'', URL = defaultEffectURL,
      Header = [(''Accept'', ''*/*''),
                (''Content-Type'', ''multipart/form-data; boundary=b''),
                (''User-Agent'', userAgent), (''Cookie'', stubCookies),
                (''Origin'', ''https://en.ephoto360.com''), (''Referer'', defaultEffectURL)],
      Body = Multipart [(''submit'', ''GO''), (''token'', ''tok''),
                        (''build_server'', ''https://e2.yotools.net''),
                        (''build_server_id'', ''2''), (''radio0[radio]'', ''r2''),
                        (''text[]'', ''Faris'')]\<rparr>"

definition stubSubmittedState :: state where
  "stubSubmittedState = stubFetched\<lparr>sent := [stubPageRequest, stubSubmitRequest]\<rparr>"

definition stubCreateRequest :: request where
  "stubCreateRequest =
     \<lparr>Method = ''POST'', URL = ''https://en.ephoto360.com/effect/create-image'',
      Header = [(''Accept'', ''application/json, text/javascript, */*; q=0.01''),
                (''Content-Type'', ''application/x-www-form-urlencoded; charset=UTF-8''),
                (''User-Agent'', userAgent), (''Cookie'', stubCookies),
                (''Origin'', ''https://en.ephoto360.com''), (''Referer'', defaultEffectURL)],
      Body = UrlEncoded [(''id'', [''680'']), (''token'', [''tok'']),
                         (''build_server'', [''https://e2.yotools.net'']),
                         (''build_server_id'', [''2'']), (''radio0[radio]'', [''r2'']),
                         (''text[]'', [''Hello World''])]\<rparr>"

definition stubCreatedState :: state where
  "stubCreatedState =
     stubFetched\<lparr>sent := [stubPageRequest, stubSubmitRequest, stubCreateRequest]\<rparr>"

text \<open>
  A submission response in which only the \<open>value\<close> attribute of \<open>#form_value_input\<close>
  is populated, the \<open>value\<close> attribute of \<open>#form_value\<close> being present and empty.
\<close>

definition onlySecondaryAttr :: document where
  "onlySecondaryAttr =
     [(''#form_value'', [valueNode []]),
      (''#form_value_input'', [valueNode ''x''])]"

text \<open>The same with \<open>#form_value\<close> carrying no \<open>value\<close> attribute.\<close>

definition secondaryAttrAlone :: document where
  "secondaryAttrAlone =
     [(''#form_value'', [textNode []]),
      (''#form_value_input'', [valueNode ''x''])]"

text \<open>A submission response without any of the marker elements.\<close>

definition noMarkers :: document where
  "noMarkers = []"

text \<open>The stub site with an entropy source that fails.\<close>

definition failingRandEnv :: env where
  "failingRandEnv =
     (stubEnv noMarkers (Inr stubForm) (Inr stubImage))\<lparr>randInt := always (Inl ''entropy source unavailable'')\<rparr>"

section \<open>Properties of construction and the setters\<close>

lemma hasPrefix_iff: "hasPrefix s p \<longleftrightarrow> (\<exists>b. s = p @ b)"
proof
  assume "hasPrefix s p"
  then have "s = p @ drop (length p) s"
    unfolding hasPrefix_def by (metis append_take_drop_id)
  then show "\<exists>b. s = p @ b" ..
next
  assume "\<exists>b. s = p @ b"
  then show "hasPrefix s p" unfolding hasPrefix_def by auto
qed

lemma stringsContains_iff: "stringsContains s sub \<longleftrightarrow> (\<exists>a b. s = a @ sub @ b)"
proof (induction s)
  case Nil
  then show ?case by auto
next
  case (Cons c cs)
  show ?case
  proof
    assume "stringsContains (c # cs) sub"
    then consider "hasPrefix (c # cs) sub" | "stringsContains cs sub" by auto
    then show "\<exists>a b. c # cs = a @ sub @ b"
    proof cases
      case 1
      then obtain b where "c # cs = sub @ b" unfolding hasPrefix_iff ..
      then have "c # cs = [] @ sub @ b" by simp
      then show ?thesis by blast
    next
      case 2
      with Cons.IH obtain a b where "cs = a @ sub @ b" by blast
      then have "c # cs = (c # a) @ sub @ b" by simp
      then show ?thesis by blast
    qed
  next
    assume "\<exists>a b. c # cs = a @ sub @ b"
    then obtain a b where ab: "c # cs = a @ sub @ b" by blast
    show "stringsContains (c # cs) sub"
    proof (cases a)
      case Nil
      with ab have "hasPrefix (c # cs) sub" unfolding hasPrefix_iff by auto
      then show ?thesis by simp
    next
      case (Cons x a')
      with ab have "cs = a' @ sub @ b" by simp
      with Cons.IH have "stringsContains cs sub" by blast
      then show ?thesis by simp
    qed
  qed
qed

lemma default_has_marker: "stringsContains defaultEffectURL domainMarker"
  unfolding defaultEffectURL_def domainMarker_def by code_simp

lemma NewPhoto360_empty: "NewPhoto360 [] = Inr defaultClient"
  using default_has_marker by (simp add: NewPhoto360_def defaultClient_def)

text \<open>
  C7. A URL that contains the domain marker is accepted and becomes the client's effect
  page URL; a non-empty URL without the marker is rejected with the invalid-URL error;
  the empty URL is accepted and the client then holds the default effect URL.
\<close>

theorem NewPhoto360_validates_url:
  "(stringsContains url domainMarker \<longrightarrow>
      NewPhoto360 url = Inr \<lparr>EffectPageURL = url, InputText = [''Faris''], FormData = []\<rparr>)
   \<and> (url \<noteq> [] \<and> \<not> stringsContains url domainMarker \<longrightarrow> NewPhoto360 url = Inl invalidURL)
   \<and> (\<exists>p. NewPhoto360 [] = Inr p \<and> EffectPageURL p = defaultEffectURL)"
proof (intro conjI impI)
  assume m: "stringsContains url domainMarker"
  then have "url \<noteq> []" by (auto simp: domainMarker_def)
  with m show "NewPhoto360 url = Inr \<lparr>EffectPageURL = url, InputText = [''Faris''], FormData = []\<rparr>"
    by (simp add: NewPhoto360_def)
next
  assume "url \<noteq> [] \<and> \<not> stringsContains url domainMarker"
  then show "NewPhoto360 url = Inl invalidURL" by (simp add: NewPhoto360_def)
next
  show "\<exists>p. NewPhoto360 [] = Inr p \<and> EffectPageURL p = defaultEffectURL"
    using NewPhoto360_empty by (simp add: defaultClient_def)
qed

theorem NewPhoto360_validates_url_witness:
  "stringsContains ''https://photo360.com/a'' domainMarker
   \<and> NewPhoto360 ''https://photo360.com/a''
       = Inr \<lparr>EffectPageURL = ''https://photo360.com/a'', InputText = [''Faris''], FormData = []\<rparr>
   \<and> ''https://example.com/test'' \<noteq> []
   \<and> \<not> stringsContains ''https://example.com/test'' domainMarker
   \<and> NewPhoto360 ''https://example.com/test'' = Inl invalidURL"
proof -
  have a: "stringsContains ''https://photo360.com/a'' domainMarker"
    unfolding domainMarker_def by code_simp
  have b: "\<not> stringsContains ''https://example.com/test'' domainMarker"
    unfolding domainMarker_def by code_simp
  have c: "''https://example.com/test'' \<noteq> []" by simp
  from a b c NewPhoto360_validates_url [of "''https://photo360.com/a''"]
    NewPhoto360_validates_url [of "''https://example.com/test''"]
  show ?thesis by blast
qed

text \<open>
  C9. \<open>SetName\<close> leaves exactly the one given text in the text-input list, and
  \<open>SetNames\<close> leaves exactly the given sequence, in the given order, whatever the list
  held before.
\<close>

theorem setters_replace_input_text:
  "InputText (SetName p x) = [x]
   \<and> InputText (SetNames p [a, b, c]) = [a, b, c]
   \<and> InputText (SetNames p names) = names"
  by (simp add: SetName_def SetNames_def)

text \<open>
  C8 as stated (the text-input list is non-empty after every application of the
  multi-set operation) fails: \<open>SetNames\<close> stores the sequence it is given without
  validation, so the empty sequence empties the list of a freshly constructed client.
\<close>

theorem SetNames_empty_counterexample:
  "NewPhoto360 [] = Inr defaultClient
   \<and> InputText defaultClient \<noteq> []
   \<and> InputText (SetNames defaultClient []) = []"
  using NewPhoto360_empty by (simp add: SetNames_def defaultClient_def)

text \<open>
  C8, amended. The text-input list is non-empty after construction and after every
  \<open>SetName\<close>; after \<open>SetNames names\<close> it is non-empty exactly when \<open>names\<close> is.
\<close>

theorem input_text_nonempty:
  "(NewPhoto360 url = Inr p \<longrightarrow> InputText p \<noteq> [])
   \<and> InputText (SetName q x) \<noteq> []
   \<and> (InputText (SetNames q names) \<noteq> [] \<longleftrightarrow> names \<noteq> [])"
  by (auto simp: NewPhoto360_def SetName_def SetNames_def Let_def split: if_splits)

theorem input_text_nonempty_witness:
  "NewPhoto360 [] = Inr defaultClient
   \<and> InputText defaultClient \<noteq> []
   \<and> InputText (SetName defaultClient ''X'') \<noteq> []
   \<and> InputText (SetNames defaultClient [''a'', ''b'']) \<noteq> []"
  using input_text_nonempty [of "[]" defaultClient defaultClient "''X''" "[''a'', ''b'']"]
    NewPhoto360_empty
  by simp

section \<open>The library models on examples\<close>

lemma TrimSpace_examples:
  "TrimSpace ''  a b  '' = ''a b''"
  "TrimSpace [CHR 0x0A, CHR 0x09, CHR ''x'', CHR 0x0D, CHR 0x0A] = ''x''"
  "TrimSpace ([CHR 0xC2, CHR 0xA0] @ ''x'' @ [CHR 0xE3, CHR 0x80, CHR 0x80]) = ''x''"
  "TrimSpace [CHR 0xC2, CHR ''x'', CHR 0xA0] = [CHR 0xC2, CHR ''x'', CHR 0xA0]"
  "TrimSpace ''   '' = []"
  by code_simp+

lemma Atoi_examples:
  "Atoi ''2'' = Some 2"
  "Atoi ''-17'' = Some (- 17)"
  "Atoi ''+5'' = Some 5"
  "Atoi ''007'' = Some 7"
  "Atoi [] = None"
  "Atoi ''-'' = None"
  "Atoi ''12a'' = None"
  "Atoi '' 12'' = None"
  "Atoi ''1_000'' = None"
  "Atoi ''9223372036854775807'' = Some 9223372036854775807"
  "Atoi ''9223372036854775808'' = None"
  "Atoi ''-9223372036854775808'' = Some (- 9223372036854775808)"
  by (simp_all add: Atoi_def isDigit_def digitsValue_def)

lemma sprintV_examples:
  "sprintV g GNil = ''<nil>''"
  "sprintV g (GBool False) = ''false''"
  "sprintV g (GSlice [GString ''a'', GNil, GBool True]) = ''[a <nil> true]''"
  "sprintV g (GMap [(''b'', GString ''y''), (''a'', GString ''x'')]) = ''map[a:x b:y]''"
  by (simp_all add: less_eq_char_def less_char_def)

lemma fmtFloat0_examples:
  "fmtFloat0 (F64 False 1 (- 1)) = ''0''"
  "fmtFloat0 (F64 False 3 (- 1)) = ''2''"
  "fmtFloat0 (F64 False 5 (- 1)) = ''2''"
  "fmtFloat0 (F64 True 1 (- 2)) = ''-0''"
  "fmtFloat0 (F64 False 7 0) = ''7''"
  by code_simp+

section \<open>Stage lemmas\<close>

lemma TrimSpace_Nil: "TrimSpace [] = []"
  by (simp add: TrimSpace_def)

lemma pageRequest_parses:
  "pageRequest E p = Inr req \<Longrightarrow> \<exists>sh. urlParse E (EffectPageURL p) = Inr sh"
  by (auto simp: pageRequest_def newRequest_def split: sum.splits)

lemma fetchInitialPage_success:
  assumes "fetchInitialPage E s = (Inr cookies, s1)"
  shows "\<exists>req fd. pageRequest E (client s) = Inr req \<and> sent s1 = sent s @ [req]
           \<and> client s1 = (client s)\<lparr>FormData := fd\<rparr>"
  using assms
  by (auto simp: fetchInitialPage_def clientDo_def Let_def split: sum.splits prod.splits)

lemma submitRequest_total:
  "urlParse E (EffectPageURL p) = Inr sh \<Longrightarrow> \<exists>req. submitRequest E p cookies = Inr req"
  by (cases sh) (simp add: submitRequest_def newRequest_def originOf_def)

lemma submitFormData_step:
  assumes "submitRequest E (client s) cookies = Inr req"
    and "httpDo E (sent s) req = Inr resp"
    and "RespBody resp = Inr body"
  shows "submitFormData E cookies s =
           (if extractGeneratedFormValue E body = [] then Inl noGeneratedFormValue
            else Inr (extractGeneratedFormValue E body),
            s\<lparr>sent := sent s @ [req]\<rparr>)"
  using assms by (simp add: submitFormData_def clientDo_def readAll_def Let_def)

lemma submitFormData_success:
  assumes "submitFormData E cookies s = (Inr g, s2)"
  shows "\<exists>req. submitRequest E (client s) cookies = Inr req \<and> s2 = s\<lparr>sent := sent s @ [req]\<rparr>"
  using assms
  by (auto simp: submitFormData_def clientDo_def Let_def split: sum.splits prod.splits if_splits)

lemma extract_parse_failure:
  "parseHTML E body = Inl m \<Longrightarrow> extractGeneratedFormValue E body = []"
  by (simp add: extractGeneratedFormValue_def newDocument_def)

lemma extract_empty:
  assumes "parseHTML E body = Inr doc"
    and "TrimSpace (goquery_Text (goquery_Find doc ''#form_value'')) = []"
    and "TrimSpace (goquery_Text (goquery_Find doc ''#form_value_input'')) = []"
    and "attrOrEmpty (goquery_Attr (goquery_Find doc ''#form_value'') ''value'') = []"
    and "attrOrEmpty (goquery_Attr (goquery_Find doc ''#form_value_input'') ''value'') = []"
  shows "extractGeneratedFormValue E body = []"
  using assms
  by (auto simp: extractGeneratedFormValue_def newDocument_def Let_def attrOrEmpty_def
      split: option.splits)

section \<open>The stub run, stage by stage\<close>

lemma stub_urlParse: "urlParse (stubEnv d f i) u = Inr (''https'', ''en.ephoto360.com'')"
  by (simp add: stubEnv_def stubUrlParse_def)

lemma stub_prepare:
  "prepareFormData (stubEnv d f i) ''https://e2.yotools.net'' ''2'' ''tok'' ''GO'' [''r1'', ''r2'']
     = Inr stubFormData"
  by (simp add: prepareFormData_def secureRandomInt_def stubEnv_def stubRandInt_def Atoi_def
      isDigit_def digitsValue_def stubFormData_def)

lemma stub_pageRequest: "pageRequest (stubEnv d f i) defaultClient = Inr stubPageRequest"
  by (simp add: pageRequest_def newRequest_def originOf_def stub_urlParse
      setHeader_def defaultClient_def stubPageRequest_def)

lemma stub_page_document:
  "newDocumentFromBody (stubEnv d f i) \<lparr>Cookies = cs, RespBody = Inr ''page''\<rparr> = Inr stubPage"
  by (simp add: newDocumentFromBody_def readAll_def newDocument_def stubEnv_def stubParseHTML_def)

lemma stub_page_fields:
  "attrOrEmpty (goquery_Attr (goquery_Find stubPage ''#build_server'') ''value'') = ''https://e2.yotools.net''"
  "attrOrEmpty (goquery_Attr (goquery_Find stubPage ''#build_server_id'') ''value'') = ''2''"
  "attrOrEmpty (goquery_Attr (goquery_Find stubPage ''#token'') ''value'') = ''tok''"
  "attrOrEmpty (goquery_Attr (goquery_Find stubPage ''#submit'') ''value'') = ''GO''"
  "List.map_filter (\<lambda>n. map_of (nodeAttrs n) ''value'') (goquery_Find stubPage radioSelector)
     = [''r1'', ''r2'']"
  by (simp_all add: stubPage_def goquery_Find_def goquery_Attr_def attrOrEmpty_def valueNode_def
      radioSelector_def List.map_filter_simps)

lemma stub_fetch:
  "fetchInitialPage (stubEnv d f i) startState = (Inr stubCookies, stubFetched)"
proof -
  have h: "httpDo (stubEnv d f i) [] stubPageRequest
             = Inr \<lparr>Cookies = [stubCookies], RespBody = Inr ''page''\<rparr>"
    by (simp add: stubEnv_def stubHttpDo_def stubPageRequest_def stubCookies_def)
  show ?thesis
    by (simp add: fetchInitialPage_def startState_def stub_pageRequest clientDo_def h
        stub_page_document stub_page_fields stub_prepare stubFetched_def Let_def)
qed

lemma showInt_2: "showInt 2 = ''2''"
  by code_simp

lemma stub_contentType:
  "formDataContentType (stubEnv d f i) = ''multipart/form-data; boundary=b''"
  by (simp add: stubEnv_def)

lemma stub_submitRequest:
  "submitRequest (stubEnv d f i) (client stubFetched) stubCookies = Inr stubSubmitRequest"
  by (simp add: submitRequest_def newRequest_def originOf_def stub_urlParse setHeader_def
      stubFetched_def defaultClient_def stubSubmitRequest_def submitFields_def stubFormData_def
      stub_contentType showInt_2)

lemma stub_submit_response:
  "httpDo (stubEnv d f i) (sent stubFetched) stubSubmitRequest
     = Inr \<lparr>Cookies = [stubCookies], RespBody = Inr ''submitted''\<rparr>"
  by (simp add: stubEnv_def stubHttpDo_def stubSubmitRequest_def stubCookies_def)

lemma stub_parse_submitted: "parseHTML (stubEnv d f i) ''submitted'' = Inr d"
  by (simp add: stubEnv_def stubParseHTML_def)

lemma showNat_43: "showNat 43 = ''43''"
  by code_simp

lemma r427: "roundHalfEven 6009490752772506 (-47) = 43"
  by (simp add: roundHalfEven_def Let_def)

lemma stub_createImageRequest:
  "createImageRequest (stubEnv d f i) (client stubSubmittedState) ''https://en.ephoto360.com''
     stubForm stubCookies = Inr stubCreateRequest"
  by (simp add: createImageRequest_def newRequest_def stub_urlParse setHeader_def
      stubSubmittedState_def stubFetched_def defaultClient_def stubCreateRequest_def
      createImageForm_def stubForm_def valuesSet_def valuesAdd_def)

lemma stub_origin:
  "originOf (stubEnv d f i) u = Inr ''https://en.ephoto360.com''"
  by (simp add: originOf_def stub_urlParse)

lemma stub_newDocument_submitted:
  "newDocument (stubEnv d f i) ''submitted'' = Inr d"
  by (simp add: newDocument_def stubEnv_def stubParseHTML_def)

section \<open>Extraction of the generated form value\<close>

text \<open>
  C2 as stated fails: when the \<open>value\<close> attribute of \<open>#form_value\<close> exists and is
  empty, the code returns it and never consults the \<open>value\<close> attribute of
  \<open>#form_value_input\<close>. In this response only location (d) is populated, the first
  non-empty location holds \<open>x\<close>, and the code returns the empty string.
\<close>

theorem extraction_secondary_attr_counterexample:
  "extractionLocations onlySecondaryAttr = [[], [], [], ''x'']
   \<and> specExtract onlySecondaryAttr = ''x''
   \<and> extractGeneratedFormValue (stubEnv onlySecondaryAttr (Inr stubForm) (Inr stubImage)) ''submitted'' = []"
  by (simp add: extractGeneratedFormValue_def stub_newDocument_submitted specExtract_def
      extractionLocations_def onlySecondaryAttr_def goquery_Find_def goquery_Text_def
      goquery_Attr_def attrOrEmpty_def valueNode_def TrimSpace_Nil)

text \<open>
  C2, amended. The extraction returns the white-space-trimmed text of \<open>#form_value\<close>
  when that is non-empty; else the trimmed text of \<open>#form_value_input\<close> when that is
  non-empty; else the \<open>value\<close> attribute of \<open>#form_value\<close> when the attribute exists
  (empty or not); else the \<open>value\<close> attribute of \<open>#form_value_input\<close> when it exists,
  unchanged; else the empty string.
\<close>

theorem extraction_order:
  assumes "parseHTML E responseData = Inr doc"
    and "a = TrimSpace (goquery_Text (goquery_Find doc ''#form_value''))"
    and "b = TrimSpace (goquery_Text (goquery_Find doc ''#form_value_input''))"
    and "c = goquery_Attr (goquery_Find doc ''#form_value'') ''value''"
    and "d = goquery_Attr (goquery_Find doc ''#form_value_input'') ''value''"
  shows "(a \<noteq> [] \<longrightarrow> extractGeneratedFormValue E responseData = a)
    \<and> (a = [] \<and> b \<noteq> [] \<longrightarrow> extractGeneratedFormValue E responseData = b)
    \<and> (a = [] \<and> b = [] \<longrightarrow> (\<forall>v. c = Some v \<longrightarrow> extractGeneratedFormValue E responseData = v))
    \<and> (a = [] \<and> b = [] \<and> c = None \<longrightarrow>
          (\<forall>v. d = Some v \<longrightarrow> extractGeneratedFormValue E responseData = v))
    \<and> (a = [] \<and> b = [] \<and> c = None \<and> d = None \<longrightarrow> extractGeneratedFormValue E responseData = [])"
  using assms
  by (simp add: extractGeneratedFormValue_def newDocument_def Let_def)

theorem extraction_order_witness:
  "extractGeneratedFormValue (stubEnv secondaryAttrAlone (Inr stubForm) (Inr stubImage)) ''submitted'' = ''x''
   \<and> extractGeneratedFormValue (stubEnv stubSubmitted (Inr stubForm) (Inr stubImage)) ''submitted'' = ''generated''"
proof -
  let ?E = "stubEnv secondaryAttrAlone (Inr stubForm) (Inr stubImage)"
  let ?F = "stubEnv stubSubmitted (Inr stubForm) (Inr stubImage)"
  have p: "parseHTML ?E ''submitted'' = Inr secondaryAttrAlone"
    by (simp add: stubEnv_def stubParseHTML_def)
  have q: "parseHTML ?F ''submitted'' = Inr stubSubmitted"
    by (simp add: stubEnv_def stubParseHTML_def)
  have a: "TrimSpace (goquery_Text (goquery_Find secondaryAttrAlone ''#form_value'')) = []"
    by (simp add: secondaryAttrAlone_def goquery_Find_def goquery_Text_def textNode_def TrimSpace_Nil)
  have b: "TrimSpace (goquery_Text (goquery_Find secondaryAttrAlone ''#form_value_input'')) = []"
    by (simp add: secondaryAttrAlone_def goquery_Find_def goquery_Text_def valueNode_def TrimSpace_Nil)
  have c: "goquery_Attr (goquery_Find secondaryAttrAlone ''#form_value'') ''value'' = None"
    by (simp add: secondaryAttrAlone_def goquery_Find_def goquery_Attr_def textNode_def)
  have d: "goquery_Attr (goquery_Find secondaryAttrAlone ''#form_value_input'') ''value'' = Some ''x''"
    by (simp add: secondaryAttrAlone_def goquery_Find_def goquery_Attr_def valueNode_def)
  have t: "TrimSpace (goquery_Text (goquery_Find stubSubmitted ''#form_value'')) = ''generated''"
    unfolding stubSubmitted_def goquery_Find_def goquery_Text_def textNode_def by code_simp
  from extraction_order [OF p a [symmetric] b [symmetric] c [symmetric] d [symmetric]]
  have 1: "extractGeneratedFormValue ?E ''submitted'' = ''x''" by simp
  from extraction_order [OF q t [symmetric] refl refl refl]
  have 2: "extractGeneratedFormValue ?F ''submitted'' = ''generated''" by simp
  from 1 2 show ?thesis by simp
qed

section \<open>A submission response without a generated form value\<close>

text \<open>
  C5. When the submission response yields nothing at any of the four locations (a text
  that is empty after trimming, an attribute that is absent or empty), \<open>submitFormData\<close>
  fails with "no generated form value found", and \<open>Execute\<close> returns that error having
  sent the page request and the submission request only: \<open>createImage\<close> is not reached.
\<close>

theorem missing_generated_value_aborts:
  assumes fetch: "fetchInitialPage E s0 = (Inr cookies, s1)"
    and req: "submitRequest E (client s1) cookies = Inr req"
    and resp: "httpDo E (sent s1) req = Inr resp"
    and body: "RespBody resp = Inr body"
    and doc: "parseHTML E body = Inr doc"
    and a: "TrimSpace (goquery_Text (goquery_Find doc ''#form_value'')) = []"
    and b: "TrimSpace (goquery_Text (goquery_Find doc ''#form_value_input'')) = []"
    and c: "attrOrEmpty (goquery_Attr (goquery_Find doc ''#form_value'') ''value'') = []"
    and d: "attrOrEmpty (goquery_Attr (goquery_Find doc ''#form_value_input'') ''value'') = []"
  shows "submitFormData E cookies s1 = (Inl noGeneratedFormValue, s1\<lparr>sent := sent s1 @ [req]\<rparr>)
    \<and> Execute E s0 = (Inl noGeneratedFormValue, s1\<lparr>sent := sent s1 @ [req]\<rparr>)
    \<and> (\<exists>preq. pageRequest E (client s0) = Inr preq
           \<and> sent (snd (Execute E s0)) = sent s0 @ [preq, req])"
proof -
  have e: "extractGeneratedFormValue E body = []"
    using extract_empty [OF doc a b c d] .
  have sub: "submitFormData E cookies s1 = (Inl noGeneratedFormValue, s1\<lparr>sent := sent s1 @ [req]\<rparr>)"
    using submitFormData_step [OF req resp body] e by simp
  have ex: "Execute E s0 = (Inl noGeneratedFormValue, s1\<lparr>sent := sent s1 @ [req]\<rparr>)"
    by (simp add: Execute_def fetch sub)
  from fetchInitialPage_success [OF fetch] obtain preq fd where
    "pageRequest E (client s0) = Inr preq" "sent s1 = sent s0 @ [preq]" by blast
  with sub ex show ?thesis by simp
qed

lemma noMarkers_empty:
  "TrimSpace (goquery_Text (goquery_Find noMarkers sel)) = []"
  "attrOrEmpty (goquery_Attr (goquery_Find noMarkers sel) name) = []"
  by (simp_all add: noMarkers_def goquery_Find_def goquery_Text_def goquery_Attr_def
      attrOrEmpty_def TrimSpace_Nil)

theorem missing_generated_value_aborts_witness:
  "fetchInitialPage (stubEnv noMarkers (Inr stubForm) (Inr stubImage)) startState
     = (Inr stubCookies, stubFetched)
   \<and> Execute (stubEnv noMarkers (Inr stubForm) (Inr stubImage)) startState
     = (Inl noGeneratedFormValue, stubSubmittedState)"
proof -
  let ?E = "stubEnv noMarkers (Inr stubForm) (Inr stubImage)"
  have body: "RespBody \<lparr>Cookies = [stubCookies], RespBody = Inr ''submitted''\<rparr> = Inr ''submitted''"
    by simp
  from missing_generated_value_aborts [of ?E, OF stub_fetch stub_submitRequest
      stub_submit_response body stub_parse_submitted
      noMarkers_empty(1) noMarkers_empty(1) noMarkers_empty(2) noMarkers_empty(2)]
  have "Execute ?E startState
          = (Inl noGeneratedFormValue, stubFetched\<lparr>sent := sent stubFetched @ [stubSubmitRequest]\<rparr>)"
    by simp
  then show ?thesis
    by (simp add: stub_fetch stubSubmittedState_def stubFetched_def)
qed

section \<open>Creating the image\<close>

lemma createImage_step:
  assumes "originOf E (EffectPageURL (client s)) = Inr origin"
    and "unmarshalForm E g = Inr imageCreationData"
    and "createImageRequest E (client s) origin imageCreationData cookies = Inr req"
    and "httpDo E (sent s) req = Inr resp"
    and "RespBody resp = Inr body"
    and "unmarshalResponse E body = Inr imageResponse"
  shows "createImage E g cookies s =
           (Inr \<lparr>Status = Success imageResponse,
                 ImageURL = imageURLOf imageCreationData imageResponse,
                 SessionID = sessionIDString (formatG E) (RawSessionID imageResponse)\<rparr>,
            s\<lparr>sent := sent s @ [req]\<rparr>)"
  using assms by (simp add: createImage_def clientDo_def readAll_def)

lemma originOf_total:
  "urlParse E u = Inr sh \<Longrightarrow> originOf E u = Inr (fst sh @ ''://'' @ snd sh)"
  by (cases sh) (simp add: originOf_def)

lemma createImage_decode_failure:
  assumes "urlParse E (EffectPageURL (client s)) = Inr sh"
    and "unmarshalForm E g = Inl m"
  shows "createImage E g cookies s = (Inl singleInputRequired, s)"
  using assms by (simp add: createImage_def originOf_total)

lemma pipeline_url_parses:
  assumes "fetchInitialPage E s0 = (Inr cookies, s1)"
    and "submitFormData E cookies s1 = (Inr g, s2)"
  shows "\<exists>sh. urlParse E (EffectPageURL (client s2)) = Inr sh"
proof -
  from fetchInitialPage_success [OF assms(1)] obtain req fd where
    r: "pageRequest E (client s0) = Inr req" and c: "client s1 = (client s0)\<lparr>FormData := fd\<rparr>"
    by blast
  from submitFormData_success [OF assms(2)] obtain req' where
    "s2 = s1\<lparr>sent := sent s1 @ [req']\<rparr>" by blast
  then have "EffectPageURL (client s2) = EffectPageURL (client s0)" using c by simp
  with pageRequest_parses [OF r] show ?thesis by simp
qed

text \<open>
  C4. When the generated form value does not decode into \<open>FormDataValues\<close>,
  \<open>createImage\<close> returns the single-input-required error and leaves the request log as
  it was, so no image-creation request is sent; in a run of \<open>Execute\<close> that reaches the
  stage, that error is the run's result. The error is not a decoder's error value.
\<close>

theorem undecodable_form_value_is_single_input_required:
  assumes "unmarshalForm E g = Inl m"
  shows "(urlParse E (EffectPageURL (client s)) = Inr sh \<longrightarrow>
            createImage E g cookies s = (Inl singleInputRequired, s))
    \<and> (fetchInitialPage E s0 = (Inr cookies', s1) \<and> submitFormData E cookies' s1 = (Inr g, s2) \<longrightarrow>
            createImage E g cookies' s2 = (Inl singleInputRequired, s2)
            \<and> Execute E s0 = (Inl singleInputRequired, s2))
    \<and> singleInputRequired \<noteq> External m'"
proof (intro conjI impI)
  assume "urlParse E (EffectPageURL (client s)) = Inr sh"
  then show "createImage E g cookies s = (Inl singleInputRequired, s)"
    using assms by (rule createImage_decode_failure)
next
  assume h: "fetchInitialPage E s0 = (Inr cookies', s1) \<and> submitFormData E cookies' s1 = (Inr g, s2)"
  then obtain sh' where "urlParse E (EffectPageURL (client s2)) = Inr sh'"
    using pipeline_url_parses by blast
  then have c: "createImage E g cookies' s2 = (Inl singleInputRequired, s2)"
    using assms by (rule createImage_decode_failure)
  then show "createImage E g cookies' s2 = (Inl singleInputRequired, s2)" .
  from h c show "Execute E s0 = (Inl singleInputRequired, s2)"
    by (simp add: Execute_def)
next
  show "singleInputRequired \<noteq> External m'"
    by (simp add: singleInputRequired_def)
qed

lemma stub_extract_generated:
  "extractGeneratedFormValue (stubEnv stubSubmitted f i) ''submitted'' = ''generated''"
proof -
  have t: "TrimSpace ''generated'' = ''generated''"
    by code_simp
  show ?thesis
    by (simp add: extractGeneratedFormValue_def stub_newDocument_submitted stubSubmitted_def
        goquery_Find_def goquery_Text_def textNode_def t)
qed

lemma stub_submit:
  "submitFormData (stubEnv stubSubmitted f i) stubCookies stubFetched
     = (Inr ''generated'', stubSubmittedState)"
proof -
  have body: "RespBody \<lparr>Cookies = [stubCookies], RespBody = Inr ''submitted''\<rparr> = Inr ''submitted''"
    by simp
  show ?thesis
    using submitFormData_step [OF stub_submitRequest stub_submit_response body, of stubSubmitted f i]
    by (simp add: stub_extract_generated stubSubmittedState_def stubFetched_def)
qed

lemma stub_unmarshalForm: "unmarshalForm (stubEnv d f i) g = f"
  by (simp add: stubEnv_def always_def)

lemma stub_unmarshalResponse: "unmarshalResponse (stubEnv d f i) b = i"
  by (simp add: stubEnv_def always_def)

lemma stub_create_response:
  "httpDo (stubEnv d f i) (sent stubSubmittedState) stubCreateRequest
     = Inr \<lparr>Cookies = [stubCookies], RespBody = Inr ''created''\<rparr>"
  by (simp add: stubEnv_def stubHttpDo_def stubCreateRequest_def stubCookies_def)

text \<open>The stub site with a generated form value that does not decode.\<close>

theorem undecodable_form_value_is_single_input_required_witness:
  "unmarshalForm (stubEnv stubSubmitted (Inl ''invalid character'') (Inr stubImage)) ''generated''
     = Inl ''invalid character''
   \<and> createImage (stubEnv stubSubmitted (Inl ''invalid character'') (Inr stubImage))
        ''generated'' stubCookies stubSubmittedState
     = (Inl singleInputRequired, stubSubmittedState)
   \<and> Execute (stubEnv stubSubmitted (Inl ''invalid character'') (Inr stubImage)) startState
     = (Inl singleInputRequired, stubSubmittedState)"
proof -
  let ?E = "stubEnv stubSubmitted (Inl ''invalid character'') (Inr stubImage)"
  have u: "unmarshalForm ?E ''generated'' = Inl ''invalid character''"
    by (rule stub_unmarshalForm)
  from undecodable_form_value_is_single_input_required [OF u,
      of stubSubmittedState "(''https'', ''en.ephoto360.com'')" stubCookies startState
         stubCookies stubFetched stubSubmittedState]
  show ?thesis
    by (simp add: u stub_urlParse stub_fetch stub_submit)
qed

lemma showNat_7: "showNat 7 = ''7''"
  by code_simp

lemma stub_session: "sessionIDString g (RawSessionID stubImage) = ''7''"
  by (simp add: stubImage_def roundHalfEven_def showNat_7)

lemma stub_imageURL: "imageURLOf stubForm stubImage = ''https://e2.yotools.net/x.jpg''"
  by (simp add: imageURLOf_def stubForm_def stubImage_def)

lemma stub_created_state:
  "stubSubmittedState\<lparr>sent := sent stubSubmittedState @ [stubCreateRequest]\<rparr> = stubCreatedState"
  by (simp add: stubCreatedState_def stubSubmittedState_def stubFetched_def)

lemma stub_createImage:
  "createImage (stubEnv d (Inr stubForm) (Inr stubImage)) g stubCookies stubSubmittedState
     = (Inr \<lparr>Status = True, ImageURL = ''https://e2.yotools.net/x.jpg'', SessionID = ''7''\<rparr>,
        stubCreatedState)"
proof -
  let ?E = "stubEnv d (Inr stubForm) (Inr stubImage)"
  have body: "RespBody \<lparr>Cookies = [stubCookies], RespBody = Inr ''created''\<rparr> = Inr ''created''"
    by simp
  have ok: "Success stubImage = True"
    by (simp add: stubImage_def)
  have "createImage ?E g stubCookies stubSubmittedState
          = (Inr \<lparr>Status = Success stubImage, ImageURL = imageURLOf stubForm stubImage,
                   SessionID = sessionIDString (formatG ?E) (RawSessionID stubImage)\<rparr>,
             stubSubmittedState\<lparr>sent := sent stubSubmittedState @ [stubCreateRequest]\<rparr>)"
    by (rule createImage_step [OF stub_origin stub_unmarshalForm stub_createImageRequest
          stub_create_response body stub_unmarshalResponse])
  then show ?thesis
    by (simp only: ok stub_imageURL stub_session stub_created_state)
qed

lemma stub_execute:
  "Execute (stubEnv stubSubmitted (Inr stubForm) (Inr stubImage)) startState
     = (Inr \<lparr>Status = True, ImageURL = ''https://e2.yotools.net/x.jpg'', SessionID = ''7''\<rparr>,
        stubCreatedState)"
  by (simp add: Execute_def stub_fetch stub_submit stub_createImage)

text \<open>
  C1 as stated (the full-size path wins when both paths are present) fails: the code
  tests the default path first. With both paths present the stub run returns the build
  server followed by the default path.
\<close>

theorem full_size_path_counterexample:
  "Image stubImage = ''/x.jpg'' \<and> FullsizeImage stubImage = ''/full.jpg''
   \<and> BuildServer stubForm = ''https://e2.yotools.net''
   \<and> fst (Execute (stubEnv stubSubmitted (Inr stubForm) (Inr stubImage)) startState)
       = Inr \<lparr>Status = True, ImageURL = ''https://e2.yotools.net/x.jpg'', SessionID = ''7''\<rparr>
   \<and> ''https://e2.yotools.net/x.jpg'' \<noteq> BuildServer stubForm @ FullsizeImage stubImage"
proof -
  have "fst (Execute (stubEnv stubSubmitted (Inr stubForm) (Inr stubImage)) startState)
       = Inr \<lparr>Status = True, ImageURL = ''https://e2.yotools.net/x.jpg'', SessionID = ''7''\<rparr>"
    by (simp add: stub_execute)
  moreover have "Image stubImage = ''/x.jpg'' \<and> FullsizeImage stubImage = ''/full.jpg''
      \<and> BuildServer stubForm = ''https://e2.yotools.net''
      \<and> ''https://e2.yotools.net/x.jpg'' \<noteq> BuildServer stubForm @ FullsizeImage stubImage"
    by (simp add: stubImage_def stubForm_def)
  ultimately show ?thesis by blast
qed

text \<open>
  C1, amended. When \<open>createImage\<close> gets through (the form value and the response
  decode, the request is answered), the result's image URL is the build-server string of
  the decoded form value followed by the default image path when that is non-empty, and
  by the full-size path otherwise; when both are non-empty the default path is chosen.
\<close>

theorem image_url_prefers_default_path:
  assumes "originOf E (EffectPageURL (client s)) = Inr origin"
    and "unmarshalForm E g = Inr imageCreationData"
    and "createImageRequest E (client s) origin imageCreationData cookies = Inr req"
    and "httpDo E (sent s) req = Inr resp"
    and "RespBody resp = Inr body"
    and "unmarshalResponse E body = Inr imageResponse"
  shows "\<exists>res. createImage E g cookies s = (Inr res, s\<lparr>sent := sent s @ [req]\<rparr>)
           \<and> ImageURL res = BuildServer imageCreationData
                 @ (if Image imageResponse \<noteq> [] then Image imageResponse
                    else FullsizeImage imageResponse)
           \<and> (Image imageResponse \<noteq> [] \<and> FullsizeImage imageResponse \<noteq> [] \<longrightarrow>
                 ImageURL res = BuildServer imageCreationData @ Image imageResponse)"
  using createImage_step [OF assms] by (simp add: imageURLOf_def Let_def)

theorem image_url_prefers_default_path_witness:
  "\<exists>res. createImage (stubEnv stubSubmitted (Inr stubForm) (Inr stubImage)) ''generated''
            stubCookies stubSubmittedState = (Inr res, stubCreatedState)
         \<and> ImageURL res = ''https://e2.yotools.net/x.jpg''"
proof -
  let ?E = "stubEnv stubSubmitted (Inr stubForm) (Inr stubImage)"
  have body: "RespBody \<lparr>Cookies = [stubCookies], RespBody = Inr ''created''\<rparr> = Inr ''created''"
    by simp
  from image_url_prefers_default_path [where E = ?E and g = "''generated''",
      OF stub_origin stub_unmarshalForm
      stub_createImageRequest stub_create_response body stub_unmarshalResponse]
  show ?thesis
    by (simp add: stub_created_state stubImage_def stubForm_def)
qed

section \<open>The session identifier\<close>

lemma digitChar_code: "k < 10 \<Longrightarrow> (of_char (digitChar k) :: nat) = 48 + k"
  by (simp add: digitChar_def)

lemma digitChar_no_point: "k < 10 \<Longrightarrow> digitChar k \<noteq> CHR ''.''"
proof
  assume k: "k < 10" and "digitChar k = CHR ''.''"
  then have "(of_char (digitChar k) :: nat) = of_char CHR ''.''" by simp
  with k show False by (simp add: digitChar_code)
qed

lemma showNat_no_point: "CHR ''.'' \<notin> set (showNat n)"
proof (induction n rule: showNat.induct)
  case (1 n)
  show ?case
  proof (cases "n < 10")
    case True
    then show ?thesis
      using digitChar_no_point [of n] by (subst showNat.simps) auto
  next
    case False
    have "n mod 10 < 10" by simp
    then have "digitChar (n mod 10) \<noteq> CHR ''.''" by (rule digitChar_no_point)
    with False 1 show ?thesis
      by (subst showNat.simps) auto
  qed
qed

lemma roundHalfEven_nonneg_exp: "0 \<le> e \<Longrightarrow> roundHalfEven m e = m * 2 ^ nat e"
  by (simp add: roundHalfEven_def)

lemma roundHalfEven_integral:
  assumes "e < 0" and "2 ^ nat (- e) dvd m"
  shows "roundHalfEven m e = m div 2 ^ nat (- e)"
proof -
  from assms(2) have "m mod 2 ^ nat (- e) = 0" by simp
  with assms(1) show ?thesis by (simp add: roundHalfEven_def Let_def)
qed

lemma roundHalfEven_near:
  assumes "e < 0"
  shows "2 * \<bar>int (roundHalfEven m e) * 2 ^ nat (- e) - int m\<bar> \<le> 2 ^ nat (- e)"
proof -
  define d :: nat where "d = 2 ^ nat (- e)"
  define q where "q = m div d"
  define r where "r = m mod d"
  have dpos: "0 < d" by (simp add: d_def)
  have m: "m = q * d + r" by (simp add: q_def r_def)
  have r: "r < d" using dpos by (simp add: r_def)
  have R: "roundHalfEven m e = (if 2 * r < d then q else if d < 2 * r then q + 1
                                else if even q then q else q + 1)"
    using assms unfolding roundHalfEven_def Let_def d_def q_def r_def by simp
  have id: "int m = int q * int d + int r"
    by (subst m) simp
  have down: "2 * \<bar>int q * int d - int m\<bar> \<le> int d" if "2 * r \<le> d"
  proof -
    have "int q * int d - int m = - int r" using id by simp
    then have "2 * \<bar>int q * int d - int m\<bar> = 2 * int r" by simp
    also have "\<dots> \<le> int d" using that by linarith
    finally show ?thesis .
  qed
  have up: "2 * \<bar>int (q + 1) * int d - int m\<bar> \<le> int d" if "d \<le> 2 * r"
  proof -
    have "int (q + 1) * int d = int q * int d + int d"
      by (simp add: distrib_right)
    then have "int (q + 1) * int d - int m = int d - int r" using id by simp
    moreover have "int r \<le> int d" using r by simp
    ultimately have "2 * \<bar>int (q + 1) * int d - int m\<bar> = 2 * (int d - int r)" by simp
    also have "\<dots> \<le> int d"
    proof -
      from that have "int d \<le> int (2 * r)" by (simp only: of_nat_le_iff)
      then have "int d \<le> 2 * int r" by simp
      then show ?thesis by simp
    qed
    finally show ?thesis .
  qed
  have "2 * \<bar>int (roundHalfEven m e) * int d - int m\<bar> \<le> int d"
  proof (cases "2 * r < d")
    case True
    then have "roundHalfEven m e = q" by (simp add: R)
    with down True show ?thesis by simp
  next
    case False
    show ?thesis
    proof (cases "d < 2 * r")
      case True
      then have "roundHalfEven m e = q + 1" using False by (simp add: R)
      with up True show ?thesis by simp
    next
      case F2: False
      with False have eq: "2 * r = d" by simp
      have "roundHalfEven m e = q \<or> roundHalfEven m e = q + 1"
        using False F2 by (simp add: R)
      then show ?thesis
      proof
        assume "roundHalfEven m e = q"
        with down eq show ?thesis by simp
      next
        assume "roundHalfEven m e = q + 1"
        with up eq show ?thesis by simp
      qed
    qed
  qed
  then show ?thesis by (simp add: d_def)
qed

lemma f64value_abs: "\<bar>f64value neg m e\<bar> = real m * 2 powi e"
  by (simp add: f64value_def abs_mult)

lemma powi_neg: "e < 0 \<Longrightarrow> (2::real) powi e = 1 / 2 ^ nat (- e)"
  by (simp add: power_int_def inverse_eq_divide power_one_over)

lemma half_bound:
  fixes x d :: real
  assumes "0 < d" and "2 * \<bar>x\<bar> \<le> d"
  shows "\<bar>x\<bar> / d \<le> 1 / 2"
proof -
  have "\<bar>x\<bar> \<le> d / 2" using assms(2) by simp
  then have "\<bar>x\<bar> / d \<le> (d / 2) / d" using assms(1) by (rule_tac divide_right_mono) simp_all
  also have "(d / 2) / d = 1 / 2" using assms(1) by simp
  finally show ?thesis .
qed

lemma roundHalfEven_near_real:
  "\<bar>real (roundHalfEven m e) - \<bar>f64value neg m e\<bar>\<bar> \<le> 1 / 2"
proof (cases "0 \<le> e")
  case True
  then have "real (roundHalfEven m e) = real m * 2 powi e"
    by (simp add: roundHalfEven_def power_int_def)
  then show ?thesis
    by (simp add: f64value_abs)
next
  case False
  then have e: "e < 0" by simp
  define d :: real where "d = 2 ^ nat (- e)"
  define x :: real where "x = real (roundHalfEven m e) * d - real m"
  have dpos: "0 < d" by (simp add: d_def)
  from roundHalfEven_near [OF e, of m]
  have "real_of_int (2 * \<bar>int (roundHalfEven m e) * 2 ^ nat (- e) - int m\<bar>) \<le> real_of_int (2 ^ nat (- e))"
    by (simp only: of_int_le_iff)
  then have i: "2 * \<bar>x\<bar> \<le> d"
    by (simp add: d_def x_def)
  have "real (roundHalfEven m e) - real m / d = x / d"
    using dpos by (simp add: x_def diff_divide_distrib)
  then have "\<bar>real (roundHalfEven m e) - real m / d\<bar> = \<bar>x\<bar> / d"
    using dpos by simp
  also have "\<dots> \<le> 1 / 2"
    using dpos i by (rule half_bound)
  finally have "\<bar>real (roundHalfEven m e) - real m / d\<bar> \<le> 1 / 2" .
  moreover have "\<bar>f64value neg m e\<bar> = real m / d"
    by (simp add: f64value_abs powi_neg [OF e] d_def)
  ultimately show ?thesis by simp
qed

section \<open>Form data assembly\<close>

lemma Atoi_Nil: "Atoi [] = None"
  by (simp add: Atoi_def)

lemma prepareFormData_unfold:
  "prepareFormData E bs bsid tok sub opts =
     (if opts = [] then Inr (baseFormData bs bsid tok sub)
      else case randInt E (length opts) of
             Inl m \<Rightarrow> Inl (Errorf ''failed to generate secure random number'' (External m))
           | Inr k \<Rightarrow> if k < length opts
                      then Inr (AList.update ''radio0[radio]'' (FString (opts ! k))
                                  (baseFormData bs bsid tok sub))
                      else Inl (Panic ''index out of range''))"
  by (cases "bsid = []")
     (auto simp: prepareFormData_def secureRandomInt_def wrapError_def baseFormData_def Atoi_Nil
       Let_def split: sum.splits option.splits)

lemma baseFormData_map:
  "map_of (baseFormData bs bsid tok sub) =
     [''submit'' \<mapsto> FString sub, ''token'' \<mapsto> FString tok, ''build_server'' \<mapsto> FString bs]
       ++ (case Atoi bsid of None \<Rightarrow> Map.empty | Some n \<Rightarrow> [''build_server_id'' \<mapsto> FInt n])"
  by (auto simp: baseFormData_def update_conv' fun_eq_iff map_add_def split: option.splits)

lemma baseFormData_distinct: "distinct (map fst (baseFormData bs bsid tok sub))"
  by (simp add: baseFormData_def distinct_update split: option.splits)

lemma baseFormData_lookup:
  "map_of (baseFormData bs bsid tok sub) ''submit'' = Some (FString sub)"
  "map_of (baseFormData bs bsid tok sub) ''token'' = Some (FString tok)"
  "map_of (baseFormData bs bsid tok sub) ''build_server'' = Some (FString bs)"
  "map_of (baseFormData bs bsid tok sub) ''build_server_id'' = map_option FInt (Atoi bsid)"
  "map_of (baseFormData bs bsid tok sub) ''radio0[radio]'' = None"
  by (simp_all add: baseFormData_map map_add_def split: option.splits)

text \<open>
  C3. Provided the random source keeps \<open>rand.Int\<close>'s contract (a number it returns
  for a positive bound lies below the bound): \<open>prepareFormData\<close> fails only when the
  option list is non-empty and the random source fails, and then with that failure
  wrapped; otherwise it returns a mapping that holds the submit marker, the token and the
  build-server string, holds the numeric build-server id exactly when \<open>Atoi\<close> accepts
  the harvested id string, holds no option when none was harvested, and otherwise holds
  under the option key the one element of the list at the index the random source
  returned, which lies within the list. Its keys are distinct.
\<close>

theorem prepareFormData_contents:
  assumes contract: "\<forall>m n. 0 < m \<and> randInt E m = Inr n \<longrightarrow> n < m"
  shows "(\<forall>err. prepareFormData E bs bsid tok sub opts = Inl err \<longrightarrow>
            opts \<noteq> [] \<and> (\<exists>m. randInt E (length opts) = Inl m
               \<and> err = Errorf ''failed to generate secure random number'' (External m)))
    \<and> (opts = [] \<or> (\<exists>n. randInt E (length opts) = Inr n) \<longrightarrow>
          (\<exists>fd. prepareFormData E bs bsid tok sub opts = Inr fd))
    \<and> (\<forall>fd. prepareFormData E bs bsid tok sub opts = Inr fd \<longrightarrow>
          map_of fd ''submit'' = Some (FString sub)
          \<and> map_of fd ''token'' = Some (FString tok)
          \<and> map_of fd ''build_server'' = Some (FString bs)
          \<and> map_of fd ''build_server_id'' = map_option FInt (Atoi bsid)
          \<and> (''build_server_id'' \<in> dom (map_of fd) \<longleftrightarrow> Atoi bsid \<noteq> None)
          \<and> (opts = [] \<longrightarrow> map_of fd ''radio0[radio]'' = None)
          \<and> (opts \<noteq> [] \<longrightarrow>
                (\<exists>i < length opts. randInt E (length opts) = Inr i
                   \<and> map_of fd ''radio0[radio]'' = Some (FString (opts ! i))
                   \<and> opts ! i \<in> set opts))
          \<and> distinct (map fst fd))"
proof (cases "opts = []")
  case True
  then show ?thesis
    by (auto simp: prepareFormData_unfold baseFormData_lookup baseFormData_distinct dom_def)
next
  case False
  then have pos: "0 < length opts" by simp
  show ?thesis
  proof (cases "randInt E (length opts)")
    case (Inl m)
    with False show ?thesis by (simp add: prepareFormData_unfold)
  next
    case (Inr k)
    with contract pos have k: "k < length opts" by blast
    with False Inr show ?thesis
      by (auto simp: prepareFormData_unfold update_conv' baseFormData_lookup
          baseFormData_distinct distinct_update dom_def)
  qed
qed

lemma stub_rand_contract:
  "\<forall>m n. 0 < m \<and> randInt (stubEnv d f i) m = Inr n \<longrightarrow> n < m"
  by (auto simp: stubEnv_def stubRandInt_def)

lemma failing_rand: "randInt failingRandEnv m = Inl ''entropy source unavailable''"
  by (simp add: failingRandEnv_def always_def)

text \<open>
  The stub site, whose random source returns the last index, and the stub site with the
  failing entropy source.
\<close>

theorem prepareFormData_contents_witness:
  "map_of stubFormData ''submit'' = Some (FString ''GO'')
   \<and> map_of stubFormData ''build_server_id'' = map_option FInt (Atoi ''2'')
   \<and> (\<exists>i<length [''r1'', ''r2''].
         map_of stubFormData ''radio0[radio]'' = Some (FString ([''r1'', ''r2''] ! i)))
   \<and> distinct (map fst stubFormData)
   \<and> prepareFormData failingRandEnv ''https://e2.yotools.net'' ''2'' ''tok'' ''GO'' [''r1'', ''r2'']
       = Inl (Errorf ''failed to generate secure random number''
                (External ''entropy source unavailable''))"
proof -
  have ne: "[''r1'', ''r2''] \<noteq> ([] :: string list)" by simp
  note ok = prepareFormData_contents [OF stub_rand_contract,
      of noMarkers "Inr stubForm" "Inr stubImage" "''https://e2.yotools.net''" "''2''" "''tok''"
         "''GO''" "[''r1'', ''r2'']"]
  note p = stub_prepare [of noMarkers "Inr stubForm" "Inr stubImage"]
  from ok p have 1: "map_of stubFormData ''submit'' = Some (FString ''GO'')" by blast
  from ok p have 2: "map_of stubFormData ''build_server_id'' = map_option FInt (Atoi ''2'')"
    by blast
  from ok p ne have 3: "\<exists>i<length [''r1'', ''r2''].
      map_of stubFormData ''radio0[radio]'' = Some (FString ([''r1'', ''r2''] ! i))"
    by blast
  from ok p have 4: "distinct (map fst stubFormData)" by blast
  have c: "\<forall>m n. 0 < m \<and> randInt failingRandEnv m = Inr n \<longrightarrow> n < m"
    by (simp add: failing_rand)
  have "\<exists>err. prepareFormData failingRandEnv ''https://e2.yotools.net'' ''2'' ''tok'' ''GO''
                 [''r1'', ''r2''] = Inl err"
    by (simp add: prepareFormData_unfold failing_rand)
  then obtain err where
    e: "prepareFormData failingRandEnv ''https://e2.yotools.net'' ''2'' ''tok'' ''GO''
          [''r1'', ''r2''] = Inl err"
    by blast
  with prepareFormData_contents [OF c, of "''https://e2.yotools.net''" "''2''" "''tok''" "''GO''"
      "[''r1'', ''r2'']"]
  have "err = Errorf ''failed to generate secure random number''
                (External ''entropy source unavailable'')"
    by (auto simp: failing_rand)
  with e have 5: "prepareFormData failingRandEnv ''https://e2.yotools.net'' ''2'' ''tok'' ''GO''
      [''r1'', ''r2''] = Inl (Errorf ''failed to generate secure random number''
                                (External ''entropy source unavailable''))"
    by simp
  from 1 2 3 4 5 show ?thesis by (intro conjI)
qed

lemma showNat_42: "showNat 42 = ''42''"
  by code_simp

lemma showInt_42: "showInt 42 = ''42''"
  by (simp add: showInt_def showNat_42)

lemma round_42: "roundHalfEven 5910974510923776 (- 47) = 42"
  by (simp add: roundHalfEven_def Let_def)

text \<open>
  C6. The session identifier \<open>42\<close> normalizes to \<open>42\<close> whether it arrives as an
  \<open>int\<close> or as the \<open>float64\<close> 42.0 (in either of two representations of that value);
  a string normalizes to itself; an integral \<open>float64\<close> prints as the decimal digits of
  its integer value, and no \<open>float64\<close> prints with a decimal point; every value other
  than a \<open>float64\<close> prints as \<open>%v\<close> prints it.
\<close>

theorem session_id_normalization:
  "sessionIDString g (GInt 42) = ''42''
   \<and> sessionIDString g (GFloat64 (F64 False 42 0)) = ''42''
   \<and> sessionIDString g (GFloat64 (F64 False 5910974510923776 (- 47))) = ''42''
   \<and> sessionIDString g (GString ''abc'') = ''abc''
   \<and> sessionIDString g (GString s) = s
   \<and> sessionIDString g (GInt i) = showInt i
   \<and> (0 \<le> e \<longrightarrow> sessionIDString g (GFloat64 (F64 neg m e))
                    = (if neg then ''-'' else []) @ showNat (m * 2 ^ nat e))
   \<and> (e < 0 \<and> 2 ^ nat (- e) dvd m \<longrightarrow>
         sessionIDString g (GFloat64 (F64 neg m e))
           = (if neg then ''-'' else []) @ showNat (m div 2 ^ nat (- e)))
   \<and> CHR ''.'' \<notin> set (showNat n)
   \<and> ((\<forall>f. v \<noteq> GFloat64 f) \<longrightarrow> sessionIDString g v = sprintV g v)"
proof (intro conjI impI)
  show "sessionIDString g (GInt 42) = ''42''" by (simp add: showInt_42)
  show "sessionIDString g (GFloat64 (F64 False 42 0)) = ''42''"
    by (simp add: roundHalfEven_nonneg_exp showNat_42)
  show "sessionIDString g (GFloat64 (F64 False 5910974510923776 (- 47))) = ''42''"
    by (simp add: round_42 showNat_42)
  show "sessionIDString g (GString ''abc'') = ''abc''" by simp
  show "sessionIDString g (GString s) = s" by simp
  show "sessionIDString g (GInt i) = showInt i" by simp
  show "sessionIDString g (GFloat64 (F64 neg m e)) = (if neg then ''-'' else []) @ showNat (m * 2 ^ nat e)"
    if "0 \<le> e" using that by (simp add: roundHalfEven_nonneg_exp)
  show "sessionIDString g (GFloat64 (F64 neg m e)) = (if neg then ''-'' else []) @ showNat (m div 2 ^ nat (- e))"
    if "e < 0 \<and> 2 ^ nat (- e) dvd m" using that by (simp add: roundHalfEven_integral)
  show "CHR ''.'' \<notin> set (showNat n)" by (rule showNat_no_point)
  show "sessionIDString g v = sprintV g v" if "\<forall>f. v \<noteq> GFloat64 f"
    using that by (cases v) simp_all
qed

theorem session_id_normalization_witness:
  "sessionIDString (always ''?'') (GFloat64 (F64 False 21 1)) = ''42''
   \<and> sessionIDString (always ''?'') (GFloat64 (F64 False 168 (- 2))) = ''42''
   \<and> sessionIDString (always ''?'') GNil = ''<nil>''
   \<and> sessionIDString (always ''?'') (GBool True) = ''true''
   \<and> sessionIDString (always ''?'') (GSlice [GFloat64 (F64 False 3 (- 1)), GString ''a'']) = ''[? a]''"
proof -
  have d: "(2::nat) ^ nat (- (- 2)) dvd 168" by simp
  have e: "(0::int) \<le> 1" "(- 2 :: int) < 0" by simp_all
  have n: "\<forall>f. GNil \<noteq> GFloat64 f" "\<forall>f. GBool True \<noteq> GFloat64 f"
    "\<forall>f. GSlice [GFloat64 (F64 False 3 (- 1)), GString ''a''] \<noteq> GFloat64 f"
    by simp_all
  note t = session_id_normalization [where g = "always ''?''"]
  from t [of _ _ 1 False 21] e have 1: "sessionIDString (always ''?'') (GFloat64 (F64 False 21 1)) = ''42''"
    by (simp add: showNat_42)
  from t [of _ _ "- 2" False 168] e d
  have 2: "sessionIDString (always ''?'') (GFloat64 (F64 False 168 (- 2))) = ''42''"
    by (simp add: showNat_42)
  from t [where v = GNil] n have 3: "sessionIDString (always ''?'') GNil = ''<nil>''"
    by simp
  from t [where v = "GBool True"] n have 4: "sessionIDString (always ''?'') (GBool True) = ''true''"
    by simp
  from t [where v = "GSlice [GFloat64 (F64 False 3 (- 1)), GString ''a'']"] n
  have 5: "sessionIDString (always ''?'') (GSlice [GFloat64 (F64 False 3 (- 1)), GString ''a'']) = ''[? a]''"
    by (simp add: always_def)
  from 1 2 3 4 5 show ?thesis by simp
qed

text \<open>The \<open>float64\<close> nearest to 42.7 is \<open>6009490752772506 * 2^-47\<close>.\<close>

lemma f64_427: "\<bar>f64value False 6009490752772506 (- 47) - 427 / 10\<bar> < 1 / 10 ^ 14"
  by (simp add: f64value_def powi_neg)

text \<open>
  C10. A finite \<open>float64\<close> session identifier prints as its sign and the decimal digits
  of its magnitude rounded to an integer: the integer printed is within one half of the
  magnitude, and the string holds no decimal point. The \<open>float64\<close> nearest to 42.7
  prints as \<open>43\<close>, not as \<open>42.7\<close>.
\<close>

theorem non_integral_float_is_rounded:
  "sessionIDString g (GFloat64 (F64 neg m e)) = (if neg then ''-'' else []) @ showNat (roundHalfEven m e)
   \<and> \<bar>real (roundHalfEven m e) - \<bar>f64value neg m e\<bar>\<bar> \<le> 1 / 2
   \<and> CHR ''.'' \<notin> set (sessionIDString g (GFloat64 (F64 neg m e)))
   \<and> \<bar>f64value False 6009490752772506 (- 47) - 427 / 10\<bar> < 1 / 10 ^ 14
   \<and> sessionIDString g (GFloat64 (F64 False 6009490752772506 (- 47))) = ''43''
   \<and> sessionIDString g (GFloat64 (F64 False 6009490752772506 (- 47))) \<noteq> ''42.7''"
proof (intro conjI)
  show "sessionIDString g (GFloat64 (F64 neg m e)) = (if neg then ''-'' else []) @ showNat (roundHalfEven m e)"
    by simp
  show "\<bar>real (roundHalfEven m e) - \<bar>f64value neg m e\<bar>\<bar> \<le> 1 / 2"
    by (rule roundHalfEven_near_real)
  show "CHR ''.'' \<notin> set (sessionIDString g (GFloat64 (F64 neg m e)))"
    by (simp add: showNat_no_point)
  show "\<bar>f64value False 6009490752772506 (- 47) - 427 / 10\<bar> < 1 / 10 ^ 14"
    by (rule f64_427)
  show s: "sessionIDString g (GFloat64 (F64 False 6009490752772506 (- 47))) = ''43''"
    by (simp add: r427 showNat_43)
  show "sessionIDString g (GFloat64 (F64 False 6009490752772506 (- 47))) \<noteq> ''42.7''"
    unfolding s by simp
qed

theorem non_integral_float_is_rounded_witness:
  "sessionIDString (always ''?'') (GFloat64 (F64 True 3 (- 1))) = ''-2''
   \<and> sessionIDString (always ''?'') (GFloat64 (F64 False 5 (- 1))) = ''2''
   \<and> sessionIDString (always ''?'') (GFloat64 (F64 False 9 (- 2))) = ''2''"
proof -
  have r: "roundHalfEven 3 (- 1) = 2" "roundHalfEven 5 (- 1) = 2" "roundHalfEven 9 (- 2) = 2"
    by (simp_all add: roundHalfEven_def Let_def)
  have s: "showNat 2 = ''2''" by code_simp
  note a = non_integral_float_is_rounded [of "always ''?''" True 3 "- 1", THEN conjunct1]
  note b = non_integral_float_is_rounded [of "always ''?''" False 5 "- 1", THEN conjunct1]
  note c = non_integral_float_is_rounded [of "always ''?''" False 9 "- 2", THEN conjunct1]
  have 1: "sessionIDString (always ''?'') (GFloat64 (F64 True 3 (- 1))) = ''-2''"
    unfolding a r s by simp
  have 2: "sessionIDString (always ''?'') (GFloat64 (F64 False 5 (- 1))) = ''2''"
    unfolding b r s by simp
  have 3: "sessionIDString (always ''?'') (GFloat64 (F64 False 9 (- 2))) = ''2''"
    unfolding c r s by simp
  from 1 2 3 show ?thesis by (intro conjI)
qed

end
